theory Spec2Isabelle
  imports Complex_Main
begin

section \<open>Python values\<close>

text \<open>
  JSON documents as Python's \<^verbatim>\<open>json\<close> module reads them: \<^verbatim>\<open>None\<close>, booleans,
  integers (unbounded), floats, strings, lists and dictionaries. A float is kept by the
  exact rational value of the (finite) double, which is all that \<^verbatim>\<open>==\<close> against an
  integer and truthiness look at. A dictionary is an association list in insertion
  order; a parsed dictionary has no key twice.
\<close>

datatype json =
    JNull
  | JBool bool
  | JInt int
  | JFloat rat
  | JStr string
  | JArr "json list"
  | JObj "(string \<times> json) list"

type_synonym dict = "(string \<times> json) list"

text \<open>Values of a query string: the wrappers only ever put integers and strings there.\<close>

datatype scalar = SInt int | SStr string

type_synonym query = "(string \<times> scalar) list"

text \<open>An argument whose default in the signature is not \<^verbatim>\<open>None\<close>: the caller leaves it out
  or gives a value.\<close>

datatype 'a arg = Omitted | Given 'a

fun arg_or :: "'a \<Rightarrow> 'a arg \<Rightarrow> 'a" where
  "arg_or d Omitted = d"
| "arg_or d (Given v) = v"

text \<open>Python's truth value of a JSON value (\<^verbatim>\<open>if v:\<close>).\<close>

fun truthy :: "json \<Rightarrow> bool" where
  "truthy JNull = False"
| "truthy (JBool b) = b"
| "truthy (JInt n) = (n \<noteq> 0)"
| "truthy (JFloat r) = (r \<noteq> 0)"
| "truthy (JStr s) = (s \<noteq> [])"
| "truthy (JArr xs) = (xs \<noteq> [])"
| "truthy (JObj kvs) = (kvs \<noteq> [])"

text \<open>\<^verbatim>\<open>d[k] = v\<close>: an existing key keeps its place, a new key goes last.\<close>

fun dict_set :: "string \<Rightarrow> 'v \<Rightarrow> (string \<times> 'v) list \<Rightarrow> (string \<times> 'v) list" where
  "dict_set k v [] = [(k, v)]"
| "dict_set k v ((k', v') # d) = (if k' = k then (k, v) # d else (k', v') # dict_set k v d)"

text \<open>\<^verbatim>\<open>d.get(k)\<close>: \<open>None\<close> for a missing key.\<close>

definition dict_get :: "(string \<times> 'v) list \<Rightarrow> string \<Rightarrow> 'v option" where
  "dict_get d k = map_of d k"

text \<open>The guarded statements the wrappers are made of. \<open>when_not_None x f\<close> is
  \<^verbatim>\<open>if x is not None: f(x)\<close>; the other three are \<^verbatim>\<open>if x: f(x)\<close> for an optional
  integer, string and dictionary, where \<^verbatim>\<open>None\<close>, \<^verbatim>\<open>0\<close>, \<^verbatim>\<open>""\<close> and \<^verbatim>\<open>{}\<close> are
  false.\<close>

fun when_not_None :: "'a option \<Rightarrow> ('a \<Rightarrow> 'd \<Rightarrow> 'd) \<Rightarrow> 'd \<Rightarrow> 'd" where
  "when_not_None None f d = d"
| "when_not_None (Some v) f d = f v d"

fun when_int :: "int option \<Rightarrow> (int \<Rightarrow> 'd \<Rightarrow> 'd) \<Rightarrow> 'd \<Rightarrow> 'd" where
  "when_int None f d = d"
| "when_int (Some n) f d = (if n \<noteq> 0 then f n d else d)"

fun when_str :: "string option \<Rightarrow> (string \<Rightarrow> 'd \<Rightarrow> 'd) \<Rightarrow> 'd \<Rightarrow> 'd" where
  "when_str None f d = d"
| "when_str (Some s) f d = (if s \<noteq> [] then f s d else d)"

fun when_dict :: "dict option \<Rightarrow> (dict \<Rightarrow> 'd \<Rightarrow> 'd) \<Rightarrow> 'd \<Rightarrow> 'd" where
  "when_dict None f d = d"
| "when_dict (Some kvs) f d = (if kvs \<noteq> [] then f kvs d else d)"

text \<open>Statements run in order on the dictionary being built.\<close>

definition exec :: "('d \<Rightarrow> 'd) list \<Rightarrow> 'd \<Rightarrow> 'd" where
  "exec stmts d = fold (\<lambda>s acc. s acc) stmts d"

subsection \<open>Strings\<close>

text \<open>\<^verbatim>\<open>s.rstrip('/')\<close> and \<^verbatim>\<open>s.lstrip('/')\<close> remove every slash at that end.\<close>

definition rstrip_slash :: "string \<Rightarrow> string" where
  "rstrip_slash s = rev (dropWhile (\<lambda>c. c = CHR ''/'') (rev s))"

definition lstrip_slash :: "string \<Rightarrow> string" where
  "lstrip_slash s = dropWhile (\<lambda>c. c = CHR ''/'') s"

text \<open>\<^verbatim>\<open>str(n)\<close> of an integer, as an f-string formats it.\<close>

definition digit :: "nat \<Rightarrow> char" where
  "digit d = char_of (48 + d)"

fun str_nat :: "nat \<Rightarrow> string" where
  "str_nat n = (if n < 10 then [digit n] else str_nat (n div 10) @ [digit (n mod 10)])"

definition str_int :: "int \<Rightarrow> string" where
  "str_int i = (if i < 0 then CHR ''-'' # str_nat (nat (- i)) else str_nat (nat i))"

fun str_scalar :: "scalar \<Rightarrow> string" where
  "str_scalar (SInt n) = str_int n"
| "str_scalar (SStr s) = s"

text \<open>\<^verbatim>\<open>sep.join(parts)\<close>.\<close>

fun join :: "string \<Rightarrow> string list \<Rightarrow> string" where
  "join sep [] = []"
| "join sep [p] = p"
| "join sep (p # q # ps) = p @ sep @ join sep (q # ps)"

section \<open>The request executor\<close>

text \<open>
  The remote service is outside the program. A run is determined by the replies the
  service gives, in order: \<open>pending\<close> holds them, and \<open>sent\<close> records every request
  the program issues. A reply is a connection that failed, or a status code with a body;
  \<^verbatim>\<open>response.json()\<close> returns the document of a JSON body and raises on an empty body
  and on text that is no JSON. With no reply left the connection fails.
\<close>

datatype body = EmptyBody | JsonBody json | TextBody string

datatype reply = ConnectionFailed | Response int body

record request =
  http_method :: string
  url :: string
  headers :: "(string \<times> string) list"
  json_data :: "dict option"
  params :: "query option"

record world =
  BASE_URL :: string
  TOKEN :: string
  pending :: "reply list"
  sent :: "request list"

datatype error =
    HTTPError int
  | ConnectionError
  | JSONDecodeError
  | ValueError string
  | AttributeError
  | TypeError
  | KeyError
  | IndexError

type_synonym 'a result = "(error + 'a) \<times> world"

definition build_url :: "string \<Rightarrow> string \<Rightarrow> string" where
  "build_url base endpoint = rstrip_slash base @ ''/'' @ lstrip_slash endpoint"

definition build_request :: "world \<Rightarrow> string \<Rightarrow> string \<Rightarrow> dict option \<Rightarrow> query option \<Rightarrow> request" where
  "build_request w m endpoint data ps =
     \<lparr> http_method = m,
       url = build_url (BASE_URL w) endpoint,
       headers = [(''Authorization'', ''Bearer '' @ TOKEN w),
                  (''Content-Type'', ''application/json'')],
       json_data = data,
       params = ps \<rparr>"

text \<open>\<^verbatim>\<open>raise_for_status\<close> raises for the codes 400 to 599.\<close>

definition is_error_status :: "int \<Rightarrow> bool" where
  "is_error_status c = (400 \<le> c \<and> c < 600)"

fun response_json :: "body \<Rightarrow> error + json" where
  "response_json (JsonBody j) = Inr j"
| "response_json EmptyBody = Inl JSONDecodeError"
| "response_json (TextBody t) = Inl JSONDecodeError"

definition make_request ::
  "string \<Rightarrow> string \<Rightarrow> dict option \<Rightarrow> query option \<Rightarrow> world \<Rightarrow> json result" where
  "make_request m endpoint data ps w =
     (let w' = w\<lparr>sent := sent w @ [build_request w m endpoint data ps]\<rparr> in
      case pending w of
        [] \<Rightarrow> (Inl ConnectionError, w')
      | r # rs \<Rightarrow>
          (case r of
             ConnectionFailed \<Rightarrow> (Inl ConnectionError, w'\<lparr>pending := rs\<rparr>)
           | Response code b \<Rightarrow>
               if is_error_status code then (Inl (HTTPError code), w'\<lparr>pending := rs\<rparr>)
               else (response_json b, w'\<lparr>pending := rs\<rparr>)))"

section \<open>Story operations\<close>

definition list_stories ::
  "int option \<Rightarrow> int option \<Rightarrow> int option \<Rightarrow> int option \<Rightarrow> string option \<Rightarrow>
   string option \<Rightarrow> string option \<Rightarrow> string option \<Rightarrow> world \<Rightarrow> json result" where
  "list_stories team_id folder_id per_page page tags search filter_by order w =
     (let ps = exec
        [when_not_None team_id (\<lambda>v. dict_set ''team_id'' (SInt v)),
         when_not_None folder_id (\<lambda>v. dict_set ''folder_id'' (SInt v)),
         when_not_None per_page (\<lambda>v. dict_set ''per_page'' (SInt (min v 500))),
         when_not_None page (\<lambda>v. dict_set ''page'' (SInt v)),
         when_str tags (\<lambda>v. dict_set ''tags'' (SStr v)),
         when_str search (\<lambda>v. dict_set ''search'' (SStr v)),
         when_str filter_by (\<lambda>v. dict_set ''filter'' (SStr v)),
         when_str order (\<lambda>v. dict_set ''order'' (SStr v))] []
      in make_request ''GET'' ''stories'' None (Some ps) w)"

definition get_story :: "int \<Rightarrow> string option \<Rightarrow> int option \<Rightarrow> world \<Rightarrow> json result" where
  "get_story story_id story_mode draft_id w =
     (let ps = exec
        [when_str story_mode (\<lambda>v. dict_set ''story_mode'' (SStr v)),
         when_not_None draft_id (\<lambda>v. dict_set ''draft_id'' (SInt v))] []
      in make_request ''GET'' (''stories/'' @ str_int story_id) None (Some ps) w)"

definition create_story ::
  "int \<Rightarrow> string option \<Rightarrow> string option \<Rightarrow> int option \<Rightarrow> int option \<Rightarrow>
   string list option \<Rightarrow> bool option \<Rightarrow> bool option \<Rightarrow> world \<Rightarrow> json result" where
  "create_story team_id name description keep_events_for folder_id tags disabled priority w =
     (let story_data = exec
        [when_not_None name (\<lambda>v. dict_set ''name'' (JStr v)),
         when_not_None description (\<lambda>v. dict_set ''description'' (JStr v)),
         when_not_None keep_events_for (\<lambda>v. dict_set ''keep_events_for'' (JInt v)),
         when_not_None folder_id (\<lambda>v. dict_set ''folder_id'' (JInt v)),
         when_not_None tags (\<lambda>v. dict_set ''tags'' (JArr (map JStr v))),
         when_not_None disabled (\<lambda>v. dict_set ''disabled'' (JBool v)),
         when_not_None priority (\<lambda>v. dict_set ''priority'' (JBool v))]
        [(''team_id'', JInt team_id)]
      in make_request ''POST'' ''stories'' (Some story_data) None w)"

text \<open>The twenty optional arguments of \<^verbatim>\<open>update_story\<close>, each \<^verbatim>\<open>None\<close> by default.\<close>

record update_story_args =
  us_name :: "string option"
  us_description :: "string option"
  us_add_tag_names :: "string list option"
  us_remove_tag_names :: "string list option"
  us_keep_events_for :: "int option"
  us_disabled :: "bool option"
  us_locked :: "bool option"
  us_priority :: "bool option"
  us_send_to_story_access_source :: "string option"
  us_send_to_story_access :: "string option"
  us_shared_team_slugs :: "string list option"
  us_send_to_story_skill_use_requires_confirmation :: "bool option"
  us_webhook_api_enabled :: "bool option"
  us_team_id :: "int option"
  us_folder_id :: "int option"
  us_change_control_enabled :: "bool option"
  us_draft_id :: "int option"
  us_monitor_failures :: "bool option"
  us_entry_action_id :: "int option"
  us_exit_action_ids :: "int list option"

definition no_update_story_args :: update_story_args where
  "no_update_story_args =
     \<lparr> us_name = None, us_description = None, us_add_tag_names = None,
       us_remove_tag_names = None, us_keep_events_for = None, us_disabled = None,
       us_locked = None, us_priority = None, us_send_to_story_access_source = None,
       us_send_to_story_access = None, us_shared_team_slugs = None,
       us_send_to_story_skill_use_requires_confirmation = None,
       us_webhook_api_enabled = None, us_team_id = None, us_folder_id = None,
       us_change_control_enabled = None, us_draft_id = None, us_monitor_failures = None,
       us_entry_action_id = None, us_exit_action_ids = None \<rparr>"

definition update_story :: "int \<Rightarrow> update_story_args \<Rightarrow> world \<Rightarrow> json result" where
  "update_story story_id a w =
     (let update_data = exec
        [when_not_None (us_name a) (\<lambda>v. dict_set ''name'' (JStr v)),
         when_not_None (us_description a) (\<lambda>v. dict_set ''description'' (JStr v)),
         when_not_None (us_add_tag_names a) (\<lambda>v. dict_set ''add_tag_names'' (JArr (map JStr v))),
         when_not_None (us_remove_tag_names a)
           (\<lambda>v. dict_set ''remove_tag_names'' (JArr (map JStr v))),
         when_not_None (us_keep_events_for a) (\<lambda>v. dict_set ''keep_events_for'' (JInt v)),
         when_not_None (us_disabled a) (\<lambda>v. dict_set ''disabled'' (JBool v)),
         when_not_None (us_locked a) (\<lambda>v. dict_set ''locked'' (JBool v)),
         when_not_None (us_priority a) (\<lambda>v. dict_set ''priority'' (JBool v)),
         when_not_None (us_send_to_story_access_source a)
           (\<lambda>v. dict_set ''send_to_story_access_source'' (JStr v)),
         when_not_None (us_send_to_story_access a)
           (\<lambda>v. dict_set ''send_to_story_access'' (JStr v)),
         when_not_None (us_shared_team_slugs a)
           (\<lambda>v. dict_set ''shared_team_slugs'' (JArr (map JStr v))),
         when_not_None (us_send_to_story_skill_use_requires_confirmation a)
           (\<lambda>v. dict_set ''send_to_story_skill_use_requires_confirmation'' (JBool v)),
         when_not_None (us_webhook_api_enabled a)
           (\<lambda>v. dict_set ''webhook_api_enabled'' (JBool v)),
         when_not_None (us_team_id a) (\<lambda>v. dict_set ''team_id'' (JInt v)),
         when_not_None (us_folder_id a) (\<lambda>v. dict_set ''folder_id'' (JInt v)),
         when_not_None (us_change_control_enabled a)
           (\<lambda>v. dict_set ''change_control_enabled'' (JBool v)),
         when_not_None (us_draft_id a) (\<lambda>v. dict_set ''draft_id'' (JInt v)),
         when_not_None (us_monitor_failures a) (\<lambda>v. dict_set ''monitor_failures'' (JBool v)),
         when_not_None (us_entry_action_id a) (\<lambda>v. dict_set ''entry_action_id'' (JInt v)),
         when_not_None (us_exit_action_ids a)
           (\<lambda>v. dict_set ''exit_action_ids'' (JArr (map JInt v)))] []
      in make_request ''PUT'' (''stories/'' @ str_int story_id) (Some update_data) None w)"

text \<open>The three presets over \<^verbatim>\<open>list_stories\<close>; \<^verbatim>\<open>per_page\<close> defaults to 20.\<close>

definition search_stories ::
  "string \<Rightarrow> int option \<Rightarrow> int option arg \<Rightarrow> world \<Rightarrow> json result" where
  "search_stories query_str team_id per_page w =
     list_stories team_id None (arg_or (Some 20) per_page) None None (Some query_str) None None w"

definition get_high_priority_stories ::
  "int option \<Rightarrow> int option arg \<Rightarrow> world \<Rightarrow> json result" where
  "get_high_priority_stories team_id per_page w =
     list_stories team_id None (arg_or (Some 20) per_page) None None None
       (Some ''HIGH_PRIORITY'') None w"

definition get_disabled_stories ::
  "int option \<Rightarrow> int option arg \<Rightarrow> world \<Rightarrow> json result" where
  "get_disabled_stories team_id per_page w =
     list_stories team_id None (arg_or (Some 20) per_page) None None None
       (Some ''DISABLED'') None w"

section \<open>Action operations\<close>

definition query_string :: "query \<Rightarrow> string" where
  "query_string ps = join ''&'' (map (\<lambda>(k, v). k @ ''='' @ str_scalar v) ps)"

definition get_story_actions :: "int \<Rightarrow> int option \<Rightarrow> world \<Rightarrow> json result" where
  "get_story_actions story_id draft_id w =
     (let ps = exec [when_int draft_id (\<lambda>v. dict_set ''draft_id'' (SInt v))]
                 [(''story_id'', SInt story_id)]
      in make_request ''GET'' (''agents?'' @ query_string ps) None None w)"

definition create_action ::
  "int \<Rightarrow> string \<Rightarrow> string \<Rightarrow> dict option \<Rightarrow> dict option \<Rightarrow> int option \<Rightarrow>
   world \<Rightarrow> json result" where
  "create_action story_id action_type name options position draft_id w =
     (let data = exec
        [when_not_None draft_id (\<lambda>v. dict_set ''draft_id'' (JInt v)),
         when_dict options (\<lambda>v. dict_set ''options'' (JObj v)),
         (\<lambda>d. case position of
                 None \<Rightarrow> dict_set ''position'' (JObj [(''x'', JInt 100), (''y'', JInt 100)]) d
               | Some p \<Rightarrow>
                   if p \<noteq> [] then dict_set ''position'' (JObj p) d
                   else dict_set ''position'' (JObj [(''x'', JInt 100), (''y'', JInt 100)]) d)]
        [(''type'', JStr action_type), (''name'', JStr name),
         (''story_id'', JStr (str_int story_id))]
      in make_request ''POST'' ''actions'' (Some data) None w)"

definition create_event_transform_action ::
  "int \<Rightarrow> string \<Rightarrow> int \<Rightarrow> string arg \<Rightarrow> string option \<Rightarrow> dict option \<Rightarrow> dict option \<Rightarrow>
   world \<Rightarrow> json result" where
  "create_event_transform_action story_id name draft_id mode message payload position w =
     (let options = exec
        [when_str message (\<lambda>v. dict_set ''message'' (JStr v)),
         when_dict payload (\<lambda>v. dict_set ''payload'' (JObj v))]
        [(''mode'', JStr (arg_or ''message'' mode))]
      in create_action story_id ''Agents::EventTransformationAgent'' name (Some options)
           position (Some draft_id) w)"

definition create_webhook_action ::
  "int \<Rightarrow> string \<Rightarrow> int \<Rightarrow> string option \<Rightarrow> dict option \<Rightarrow> world \<Rightarrow> json result" where
  "create_webhook_action story_id name draft_id secret position w =
     (let options = exec [when_str secret (\<lambda>v. dict_set ''secret'' (JStr v))] []
      in create_action story_id ''Agents::WebhookAgent'' name (Some options)
           position (Some draft_id) w)"

definition create_email_action ::
  "int \<Rightarrow> string \<Rightarrow> int \<Rightarrow> string \<Rightarrow> string \<Rightarrow> string \<Rightarrow> string option \<Rightarrow> string option \<Rightarrow>
   string option \<Rightarrow> string arg \<Rightarrow> dict option \<Rightarrow> world \<Rightarrow> json result" where
  "create_email_action story_id name draft_id to subject body_text from_email cc bcc
       content_type position w =
     (let options = exec
        [when_str from_email (\<lambda>v. dict_set ''from'' (JStr v)),
         when_str cc (\<lambda>v. dict_set ''cc'' (JStr v)),
         when_str bcc (\<lambda>v. dict_set ''bcc'' (JStr v))]
        [(''to'', JStr to), (''subject'', JStr subject), (''body'', JStr body_text),
         (''content_type'', JStr (arg_or ''text/html'' content_type))]
      in create_action story_id ''Agents::EmailAgent'' name (Some options)
           position (Some draft_id) w)"

definition create_imap_action ::
  "int \<Rightarrow> string \<Rightarrow> int \<Rightarrow> string \<Rightarrow> string \<Rightarrow> string \<Rightarrow> int arg \<Rightarrow> bool arg \<Rightarrow>
   string arg \<Rightarrow> dict option \<Rightarrow> dict option \<Rightarrow> world \<Rightarrow> json result" where
  "create_imap_action story_id name draft_id host username password port ssl folder
       conditions position w =
     (let options = exec
        [when_dict conditions (\<lambda>v. dict_set ''conditions'' (JObj v))]
        [(''host'', JStr host), (''username'', JStr username), (''password'', JStr password),
         (''port'', JInt (arg_or 993 port)), (''ssl'', JBool (arg_or True ssl)),
         (''folder'', JStr (arg_or ''INBOX'' folder))]
      in create_action story_id ''Agents::IMAPAgent'' name (Some options)
           position (Some draft_id) w)"

definition create_send_to_story_action ::
  "int \<Rightarrow> string \<Rightarrow> int \<Rightarrow> int \<Rightarrow> dict option \<Rightarrow> dict option \<Rightarrow> world \<Rightarrow> json result" where
  "create_send_to_story_action story_id name draft_id target_story_id payload position w =
     (let options = exec
        [when_dict payload (\<lambda>v. dict_set ''payload'' (JObj v))]
        [(''story_id'', JInt target_story_id)]
      in create_action story_id ''Agents::SendToStoryAgent'' name (Some options)
           position (Some draft_id) w)"

definition create_trigger_action ::
  "int \<Rightarrow> string \<Rightarrow> int \<Rightarrow> dict list \<Rightarrow> string option \<Rightarrow> dict option \<Rightarrow>
   world \<Rightarrow> json result" where
  "create_trigger_action story_id name draft_id rules message position w =
     (let options = exec
        [when_str message (\<lambda>v. dict_set ''message'' (JStr v))]
        [(''rules'', JArr (map JObj rules))]
      in create_action story_id ''Agents::TriggerAgent'' name (Some options)
           position (Some draft_id) w)"

definition create_group_action ::
  "int \<Rightarrow> string \<Rightarrow> int \<Rightarrow> int \<Rightarrow> dict option \<Rightarrow> world \<Rightarrow> json result" where
  "create_group_action story_id name draft_id group_story_id position w =
     (let options = [(''group_story_id'', JInt group_story_id)]
      in create_action story_id ''Agents::GroupAgent'' name (Some options)
           position (Some draft_id) w)"

definition create_llm_action ::
  "int \<Rightarrow> string \<Rightarrow> string \<Rightarrow> int \<Rightarrow> bool arg \<Rightarrow> dict option \<Rightarrow> world \<Rightarrow> json result" where
  "create_llm_action story_id name prompt draft_id json_mode position w =
     (let options = [(''prompt'', JStr prompt), (''json_mode'', JBool (arg_or False json_mode))]
      in create_action story_id ''Agents::LLMAgent'' name (Some options)
           position (Some draft_id) w)"

definition update_action ::
  "int \<Rightarrow> int \<Rightarrow> string option \<Rightarrow> dict option \<Rightarrow> dict option \<Rightarrow> int option \<Rightarrow>
   world \<Rightarrow> json result" where
  "update_action story_id action_id name options position draft_id w =
     (let data = exec
        [when_str name (\<lambda>v. dict_set ''name'' (JStr v)),
         when_dict options (\<lambda>v. dict_set ''options'' (JObj v)),
         when_dict position (\<lambda>v. dict_set ''position'' (JObj v)),
         when_int draft_id (\<lambda>v. dict_set ''draft_id'' (JInt v))] []
      in make_request ''PUT'' (''actions/'' @ str_int action_id) (Some data) None w)"

definition delete_action :: "int \<Rightarrow> int \<Rightarrow> world \<Rightarrow> json result" where
  "delete_action story_id action_id w =
     make_request ''DELETE'' (''actions/'' @ str_int action_id) None None w"

subsection \<open>Linking two actions\<close>

text \<open>\<^verbatim>\<open>obj.get(key, default)\<close> on a parsed document: only a dictionary has \<^verbatim>\<open>get\<close>.\<close>

fun get_default :: "json \<Rightarrow> string \<Rightarrow> json \<Rightarrow> error + json" where
  "get_default (JObj d) k dflt = Inr (case dict_get d k of Some v \<Rightarrow> v | None \<Rightarrow> dflt)"
| "get_default v k dflt = Inl AttributeError"

text \<open>\<^verbatim>\<open>n == v\<close> for an integer \<open>n\<close>: Python compares numbers by value, and \<^verbatim>\<open>True\<close> and
  \<^verbatim>\<open>False\<close> are the numbers 1 and 0.\<close>

fun py_eq_int :: "int \<Rightarrow> json \<Rightarrow> bool" where
  "py_eq_int n (JInt m) = (n = m)"
| "py_eq_int n (JBool b) = (n = (if b then 1 else 0))"
| "py_eq_int n (JFloat r) = (of_int n = r)"
| "py_eq_int n v = False"

text \<open>
  \<^verbatim>\<open>if source_action_id not in current_sources: current_sources.append(source_action_id)\<close>.
  On a list the test is membership by \<^verbatim>\<open>==\<close>. On a dictionary the test looks among the
  keys, which are strings, so the id is absent and \<^verbatim>\<open>append\<close> does not exist. A string
  refuses an integer on the left of \<^verbatim>\<open>in\<close>, and the other values are not containers.
\<close>

fun add_source :: "int \<Rightarrow> json \<Rightarrow> error + json" where
  "add_source s (JArr xs) =
     Inr (JArr (if \<not> list_ex (py_eq_int s) xs then xs @ [JInt s] else xs))"
| "add_source s (JObj d) = Inl AttributeError"
| "add_source s v = Inl TypeError"

definition connect_actions ::
  "int \<Rightarrow> int \<Rightarrow> int \<Rightarrow> string option \<Rightarrow> int option \<Rightarrow> world \<Rightarrow> json result" where
  "connect_actions story_id source_action_id target_action_id source_output draft_id w =
     (case make_request ''GET'' (''actions/'' @ str_int target_action_id) None None w of
        (Inl e, w1) \<Rightarrow> (Inl e, w1)
      | (Inr target_action, w1) \<Rightarrow>
          (case get_default target_action ''sources'' (JArr []) of
             Inl e \<Rightarrow> (Inl e, w1)
           | Inr fetched \<Rightarrow>
               (case add_source source_action_id fetched of
                  Inl e \<Rightarrow> (Inl e, w1)
                | Inr current_sources \<Rightarrow>
                    (let data = exec
                       [when_int draft_id (\<lambda>v. dict_set ''draft_id'' (JInt v))]
                       [(''source_ids'', current_sources)]
                     in make_request ''PUT'' (''actions/'' @ str_int target_action_id)
                          (Some data) None w1))))"

section \<open>Drafts\<close>

definition list_story_drafts :: "int \<Rightarrow> world \<Rightarrow> json result" where
  "list_story_drafts story_id w =
     make_request ''GET'' (''stories/'' @ str_int story_id @ ''/drafts'') None None w"

definition get_story_draft :: "int \<Rightarrow> int \<Rightarrow> world \<Rightarrow> json result" where
  "get_story_draft story_id draft_id w =
     make_request ''GET''
       (''stories/'' @ str_int story_id @ ''/drafts/'' @ str_int draft_id) None None w"

text \<open>\<^verbatim>\<open>v[0]\<close>: the first element of a list, the first character of a string; a
  dictionary has no key \<^verbatim>\<open>0\<close> (its keys are strings); nothing else can be subscripted.\<close>

fun index0 :: "json \<Rightarrow> error + json" where
  "index0 (JArr []) = Inl IndexError"
| "index0 (JArr (x # xs)) = Inr x"
| "index0 (JStr []) = Inl IndexError"
| "index0 (JStr (c # cs)) = Inr (JStr [c])"
| "index0 (JObj d) = Inl KeyError"
| "index0 v = Inl TypeError"

text \<open>\<^verbatim>\<open>v[key]\<close> for a string key: a dictionary looks it up; lists and strings want an
  integer index; nothing else can be subscripted.\<close>

fun subscript :: "json \<Rightarrow> string \<Rightarrow> error + json" where
  "subscript (JObj d) k = (case dict_get d k of Some v \<Rightarrow> Inr v | None \<Rightarrow> Inl KeyError)"
| "subscript v k = Inl TypeError"

definition add_tag_data :: dict where
  "add_tag_data = [(''add_tag_names'', JArr [JStr ''draft-creation''])]"

definition remove_tag_data :: "json \<Rightarrow> dict" where
  "remove_tag_data draft_id =
     [(''remove_tag_names'', JArr [JStr ''draft-creation'']), (''draft_id'', draft_id)]"

text \<open>The handler of \<^verbatim>\<open>create_story_draft\<close> logs and raises the same exception again, so
  every error below leaves the function as it is.\<close>

definition create_story_draft :: "int \<Rightarrow> world \<Rightarrow> json result" where
  "create_story_draft story_id w =
     (case make_request ''PUT'' (''stories/'' @ str_int story_id) (Some add_tag_data) None w of
        (Inl e, w1) \<Rightarrow> (Inl e, w1)
      | (Inr added, w1) \<Rightarrow>
          (case list_story_drafts story_id w1 of
             (Inl e, w2) \<Rightarrow> (Inl e, w2)
           | (Inr drafts, w2) \<Rightarrow>
               (case get_default drafts ''drafts'' JNull of
                  Inl e \<Rightarrow> (Inl e, w2)
                | Inr listed \<Rightarrow>
                    if truthy listed then
                      (case index0 listed of
                         Inl e \<Rightarrow> (Inl e, w2)
                       | Inr latest_draft \<Rightarrow>
                           (case subscript latest_draft ''id'' of
                              Inl e \<Rightarrow> (Inl e, w2)
                            | Inr draft_id \<Rightarrow>
                                (case make_request ''PUT'' (''stories/'' @ str_int story_id)
                                        (Some (remove_tag_data draft_id)) None w2 of
                                   (Inl e, w3) \<Rightarrow> (Inl e, w3)
                                 | (Inr removed, w3) \<Rightarrow> (Inr latest_draft, w3))))
                    else (Inl (ValueError ''No draft was created''), w2))))"

section \<open>Notes\<close>

text \<open>\<^verbatim>\<open>not x\<close> for an optional integer: true for \<^verbatim>\<open>None\<close> and for \<^verbatim>\<open>0\<close>.\<close>

fun not_int :: "int option \<Rightarrow> bool" where
  "not_int None = True"
| "not_int (Some n) = (n = 0)"

definition create_note ::
  "string \<Rightarrow> int option \<Rightarrow> int option \<Rightarrow> dict option \<Rightarrow> int option \<Rightarrow> world \<Rightarrow> json result" where
  "create_note content story_id group_id position draft_id w =
     (if not_int story_id \<and> not_int group_id then
        (Inl (ValueError ''Either story_id or group_id must be provided''), w)
      else
        (let data = exec
           [when_int story_id (\<lambda>v. dict_set ''story_id'' (JInt v)),
            when_int group_id (\<lambda>v. dict_set ''group_id'' (JInt v)),
            (\<lambda>d. case position of
                    None \<Rightarrow> dict_set ''position'' (JObj [(''x'', JInt 0), (''y'', JInt 0)]) d
                  | Some p \<Rightarrow>
                      if p \<noteq> [] then dict_set ''position'' (JObj p) d
                      else dict_set ''position'' (JObj [(''x'', JInt 0), (''y'', JInt 0)]) d),
            when_int draft_id (\<lambda>v. dict_set ''draft_id'' (JInt v))]
           [(''content'', JStr content)]
         in make_request ''POST'' ''notes'' (Some data) None w))"

definition get_note :: "int \<Rightarrow> world \<Rightarrow> json result" where
  "get_note note_id w = make_request ''GET'' (''notes/'' @ str_int note_id) None None w"

definition update_note :: "int \<Rightarrow> string option \<Rightarrow> dict option \<Rightarrow> world \<Rightarrow> json result" where
  "update_note note_id content position w =
     (let data = exec
        [when_not_None content (\<lambda>v. dict_set ''content'' (JStr v)),
         when_not_None position (\<lambda>v. dict_set ''position'' (JObj v))] []
      in if data = [] then
           (Inl (ValueError ''At least one of content or position must be provided''), w)
         else make_request ''PUT'' (''notes/'' @ str_int note_id) (Some data) None w)"

definition list_notes ::
  "int option \<Rightarrow> int option \<Rightarrow> int option \<Rightarrow> string option \<Rightarrow> int option \<Rightarrow> int option \<Rightarrow>
   int option \<Rightarrow> world \<Rightarrow> json result" where
  "list_notes story_id group_id team_id mode draft_id per_page page w =
     (let ps = exec
        [when_not_None story_id (\<lambda>v. dict_set ''story_id'' (SInt v)),
         when_not_None group_id (\<lambda>v. dict_set ''group_id'' (SInt v)),
         when_not_None team_id (\<lambda>v. dict_set ''team_id'' (SInt v)),
         when_not_None mode (\<lambda>v. dict_set ''mode'' (SStr v)),
         when_not_None draft_id (\<lambda>v. dict_set ''draft_id'' (SInt v)),
         when_not_None per_page (\<lambda>v. dict_set ''per_page'' (SInt v)),
         when_not_None page (\<lambda>v. dict_set ''page'' (SInt v))] [];
         qs = query_string ps;
         endpoint = ''notes'' @ (if qs \<noteq> [] then ''?'' @ qs else [])
      in make_request ''GET'' endpoint None None w)"

definition delete_note :: "int \<Rightarrow> world \<Rightarrow> json result" where
  "delete_note note_id w =
     (case make_request ''DELETE'' (''notes/'' @ str_int note_id) None None w of
        (Inl e, w1) \<Rightarrow> (Inl e, w1)
      | (Inr gone, w1) \<Rightarrow>
          (Inr (JObj [(''deleted'', JBool True), (''note_id'', JInt note_id)]), w1))"

section \<open>Reference definitions and example data\<close>

text \<open>The URL rule in the words of the specification: exactly one trailing slash is
  taken from the base, exactly one leading slash from the endpoint. These three
  definitions follow the specification, not the code, and exist to be compared with
  \<open>build_url\<close>.\<close>

definition strip_one_trailing_slash :: "string \<Rightarrow> string" where
  "strip_one_trailing_slash s = (if s \<noteq> [] \<and> last s = CHR ''/'' then butlast s else s)"

definition strip_one_leading_slash :: "string \<Rightarrow> string" where
  "strip_one_leading_slash s = (case s of [] \<Rightarrow> [] | c # cs \<Rightarrow> if c = CHR ''/'' then cs else s)"

definition spec_build_url :: "string \<Rightarrow> string \<Rightarrow> string" where
  "spec_build_url base endpoint =
     strip_one_trailing_slash base @ ''/'' @ strip_one_leading_slash endpoint"

text \<open>Measures used in the statements below: how often a list holds an element equal
  (\<^verbatim>\<open>==\<close>) to an id, as \<^verbatim>\<open>list.count\<close> counts; the \<^verbatim>\<open>source_ids\<close> of the body of the
  last request sent; and the list \<open>connect_actions\<close> writes for a fetched list.\<close>

definition count_id :: "int \<Rightarrow> json list \<Rightarrow> nat" where
  "count_id s xs = length (filter (py_eq_int s) xs)"

definition source_ids_sent :: "world \<Rightarrow> json option" where
  "source_ids_sent w =
     (case rev (sent w) of
        [] \<Rightarrow> None
      | rq # earlier \<Rightarrow> (case json_data rq of None \<Rightarrow> None | Some d \<Rightarrow> dict_get d ''source_ids''))"

definition append_if_absent :: "int \<Rightarrow> json list \<Rightarrow> json list" where
  "append_if_absent s xs = (if \<not> list_ex (py_eq_int s) xs then xs @ [JInt s] else xs)"

text \<open>The default positions the code gives a new action and a new note.\<close>

definition default_action_position :: json where
  "default_action_position = JObj [(''x'', JInt 100), (''y'', JInt 100)]"

definition default_note_position :: json where
  "default_note_position = JObj [(''x'', JInt 0), (''y'', JInt 0)]"

text \<open>A configured process that has sent nothing yet and will receive the given replies.\<close>

definition example_world :: "reply list \<Rightarrow> world" where
  "example_world replies =
     \<lparr> BASE_URL = ''https://t.tines.com/api/v1'', TOKEN = ''t0ken'',
       pending = replies, sent = [] \<rparr>"

section \<open>Basic facts\<close>

lemma sent_make_request:
  "sent (snd (make_request m e d p w)) = sent w @ [build_request w m e d p]"
  by (simp add: make_request_def Let_def split: list.splits reply.splits)

lemma build_request_make_request:
  "build_request (snd (make_request m e d p w)) = build_request w"
  by (rule ext)+ (simp add: make_request_def build_request_def Let_def
      split: list.splits reply.splits)

lemma make_request_step:
  assumes "make_request m e d p w = (r, w1)"
  shows "sent w1 = sent w @ [build_request w m e d p]" and "build_request w1 = build_request w"
  using sent_make_request [of m e d p w] build_request_make_request [of m e d p w] assms
  by simp_all

lemma get_default_Inr:
  "get_default v k dflt = Inr x \<Longrightarrow>
     \<exists>d. v = JObj d \<and> x = (case dict_get d k of Some y \<Rightarrow> y | None \<Rightarrow> dflt)"
  by (cases v) simp_all

lemma index0_Inr_truthy:
  "index0 v = Inr x \<Longrightarrow> (\<exists>xs. v = JArr (x # xs)) \<or> (\<exists>c cs. v = JStr (c # cs) \<and> x = JStr [c])"
  by (cases v rule: index0.cases) simp_all

lemma subscript_Inr:
  "subscript v k = Inr x \<Longrightarrow> \<exists>d. v = JObj d \<and> dict_get d k = Some x"
  by (cases v) (simp_all split: option.splits)

lemma dict_get_dict_set:
  "dict_get (dict_set k v d) k' = (if k' = k then Some v else dict_get d k')"
  by (induction d) (auto simp: dict_get_def)

lemma dict_get_when_not_None_other:
  "k' \<noteq> k \<Longrightarrow> dict_get (when_not_None x (\<lambda>v. dict_set k (f v)) d) k' = dict_get d k'"
  by (cases x) (simp_all add: dict_get_dict_set)

lemma dict_get_when_str_other:
  "k' \<noteq> k \<Longrightarrow> dict_get (when_str x (\<lambda>v. dict_set k (f v)) d) k' = dict_get d k'"
  by (cases x) (simp_all add: dict_get_dict_set)

lemma str_int_42: "str_int 42 = ''42''"
  by code_simp

lemma str_int_7: "str_int 7 = ''7''"
  by code_simp

lemma last_sent_make_request:
  "last (sent (snd (make_request m e d p w))) = build_request w m e d p"
  by (simp add: sent_make_request)

text \<open>A call of \<open>make_request\<close> returns a document exactly when the next reply has a
  status outside 400..599 and a JSON body, and then it returns that document unchanged.\<close>

lemma make_request_ok_iff:
  "fst (make_request m e d p w) = Inr j \<longleftrightarrow>
     (\<exists>code rs. pending w = Response code (JsonBody j) # rs \<and> \<not> is_error_status code)"
proof (cases "pending w")
  case Nil
  then show ?thesis by (simp add: make_request_def Let_def)
next
  case (Cons r rs)
  show ?thesis
  proof (cases r)
    case ConnectionFailed
    with Cons show ?thesis by (simp add: make_request_def Let_def)
  next
    case (Response code b)
    with Cons show ?thesis
      by (cases b) (auto simp: make_request_def Let_def)
  qed
qed

subsection \<open>Stripping slashes\<close>

lemma takeWhile_eq_replicate:
  "replicate (length (takeWhile (\<lambda>c. c = a) xs)) a = takeWhile (\<lambda>c. c = a) xs"
proof -
  have "\<forall>y\<in>set (takeWhile (\<lambda>c. c = a) xs). y = a"
    by (auto dest: set_takeWhileD)
  then show ?thesis by (rule replicate_length_same)
qed

lemma lstrip_slash_split:
  "s = replicate (length (takeWhile (\<lambda>c. c = CHR ''/'') s)) CHR ''/'' @ lstrip_slash s"
proof -
  have "s = takeWhile (\<lambda>c. c = CHR ''/'') s @ dropWhile (\<lambda>c. c = CHR ''/'') s"
    by simp
  then show ?thesis
    by (simp only: lstrip_slash_def takeWhile_eq_replicate)
qed

lemma lstrip_slash_no_leading: "lstrip_slash s \<noteq> CHR ''/'' # t"
proof
  assume eq: "lstrip_slash s = CHR ''/'' # t"
  then have "dropWhile (\<lambda>c. c = CHR ''/'') s \<noteq> []"
    by (simp add: lstrip_slash_def)
  then have "\<not> (hd (dropWhile (\<lambda>c. c = CHR ''/'') s) = CHR ''/'')"
    by (rule hd_dropWhile)
  with eq show False by (simp add: lstrip_slash_def)
qed

lemma rstrip_slash_split:
  "s = rstrip_slash s @ replicate (length (takeWhile (\<lambda>c. c = CHR ''/'') (rev s))) CHR ''/''"
proof -
  have "rev (rev s) = rev (replicate (length (takeWhile (\<lambda>c. c = CHR ''/'') (rev s))) CHR ''/''
                @ lstrip_slash (rev s))"
    by (rule arg_cong [OF lstrip_slash_split])
  also have "\<dots> = rstrip_slash s
                @ replicate (length (takeWhile (\<lambda>c. c = CHR ''/'') (rev s))) CHR ''/''"
    by (simp add: rstrip_slash_def lstrip_slash_def)
  finally show ?thesis by (simp only: rev_rev_ident)
qed

lemma rstrip_slash_no_trailing: "rstrip_slash s \<noteq> t @ ''/''"
proof
  assume "rstrip_slash s = t @ ''/''"
  then have "rev (rstrip_slash s) = CHR ''/'' # rev t" by simp
  then have "lstrip_slash (rev s) = CHR ''/'' # rev t"
    by (simp add: rstrip_slash_def lstrip_slash_def)
  then show False using lstrip_slash_no_leading by blast
qed

lemma lstrip_slash_eq_one:
  assumes "\<not> (\<exists>t. s = ''//'' @ t)"
  shows "lstrip_slash s = strip_one_leading_slash s"
proof (cases s)
  case Nil
  then show ?thesis by (simp add: lstrip_slash_def strip_one_leading_slash_def)
next
  case (Cons c cs)
  note s = Cons
  show ?thesis
  proof (cases cs)
    case Nil
    with s show ?thesis by (simp add: lstrip_slash_def strip_one_leading_slash_def)
  next
    case (Cons c' cs')
    with s assms have "\<not> (c = CHR ''/'' \<and> c' = CHR ''/'')" by simp
    with s Cons show ?thesis by (auto simp: lstrip_slash_def strip_one_leading_slash_def)
  qed
qed

lemma strip_one_trailing_slash_rev:
  "strip_one_trailing_slash s = rev (strip_one_leading_slash (rev s))"
proof (cases s rule: rev_cases)
  case Nil
  then show ?thesis by (simp add: strip_one_trailing_slash_def strip_one_leading_slash_def)
next
  case (snoc ys y)
  then show ?thesis by (simp add: strip_one_trailing_slash_def strip_one_leading_slash_def)
qed

lemma rstrip_slash_eq_one:
  assumes "\<not> (\<exists>t. s = t @ ''//'')"
  shows "rstrip_slash s = strip_one_trailing_slash s"
proof -
  have "\<not> (\<exists>t. rev s = ''//'' @ t)"
  proof
    assume "\<exists>t. rev s = ''//'' @ t"
    then obtain t where "rev s = ''//'' @ t" ..
    then have "rev (rev s) = rev (''//'' @ t)" by (rule arg_cong)
    then have "s = rev t @ ''//''" by simp
    with assms show False by blast
  qed
  then have "lstrip_slash (rev s) = strip_one_leading_slash (rev s)"
    by (rule lstrip_slash_eq_one)
  then show ?thesis
    by (simp add: strip_one_trailing_slash_rev rstrip_slash_def lstrip_slash_def)
qed

section \<open>Optional parameters and falsy values (C1)\<close>

text \<open>
  Claim C1: every wrapper keeps an optional parameter that the caller supplied with a
  falsy value; \<^verbatim>\<open>update_story(story_id=5, disabled=False)\<close> sends \<^verbatim>\<open>disabled: false\<close>, and
  without the argument the payload has no such key. \<^verbatim>\<open>update_story\<close> tests
  \<^verbatim>\<open>is not None\<close> and does both (first two equations). \<^verbatim>\<open>update_action\<close> tests the
  truth value instead: called with an empty name, empty options, an empty position and
  draft id 0, it sends the same empty payload as a call that supplies none of them
  (last two equations).
\<close>

theorem update_action_drops_falsy:
  "json_data (last (sent (snd (update_story 5 (no_update_story_args\<lparr>us_disabled := Some False\<rparr>) w))))
     = Some [(''disabled'', JBool False)]
   \<and> json_data (last (sent (snd (update_story 5 no_update_story_args w)))) = Some []
   \<and> json_data (last (sent (snd (update_action 5 7 (Some '''') (Some []) (Some []) (Some 0) w))))
     = Some []
   \<and> json_data (last (sent (snd (update_action 5 7 None None None None w)))) = Some []"
  by (simp add: update_story_def update_action_def no_update_story_args_def exec_def
      sent_make_request build_request_def)

section \<open>Empty success bodies (C2)\<close>

text \<open>
  Claim C2: a successful \<open>make_request\<close> returns the document the service sent, and a
  success reply with an empty body (a 204 after a deletion) yields an empty object. The
  first half is \<open>make_request_ok_iff\<close>. The second half fails: on status 204 with an
  empty body \<^verbatim>\<open>response.json()\<close> raises, so \<open>make_request\<close> raises, and \<open>delete_note\<close>,
  whose comment expects exactly this reply, raises with it.
\<close>

theorem make_request_empty_body_raises:
  "fst (make_request ''DELETE'' ''notes/7'' None None (w\<lparr>pending := Response 204 EmptyBody # rs\<rparr>))
     = Inl JSONDecodeError
   \<and> fst (delete_note 7 (w\<lparr>pending := Response 204 EmptyBody # rs\<rparr>)) = Inl JSONDecodeError"
  by (simp add: make_request_def delete_note_def is_error_status_def Let_def str_int_7)

section \<open>Draft creation without a draft (C3)\<close>

text \<open>
  Claim C3: when the add-tag update of \<open>create_story_draft\<close> succeeds and the listing
  that follows returns an empty list of drafts, the operation fails with the error
  "No draft was created" (the \<^verbatim>\<open>ValueError\<close> the code raises for the specification's
  DraftCreationError), and the requests issued are exactly the add-tag update and the
  listing: no tag-removal request, no draft returned.
\<close>

theorem create_story_draft_no_drafts:
  assumes add: "make_request ''PUT'' (''stories/'' @ str_int story_id) (Some add_tag_data) None w
                  = (Inr added, w1)"
    and lst: "list_story_drafts story_id w1 = (Inr (JObj drafts), w2)"
    and emp: "dict_get drafts ''drafts'' = Some (JArr [])"
  shows "create_story_draft story_id w = (Inl (ValueError ''No draft was created''), w2)
       \<and> sent w2 = sent w @
           [build_request w ''PUT'' (''stories/'' @ str_int story_id) (Some add_tag_data) None,
            build_request w ''GET'' (''stories/'' @ str_int story_id @ ''/drafts'') None None]"
proof
  show "create_story_draft story_id w = (Inl (ValueError ''No draft was created''), w2)"
    using add lst emp by (simp add: create_story_draft_def)
  have "sent w1 = sent w @
          [build_request w ''PUT'' (''stories/'' @ str_int story_id) (Some add_tag_data) None]"
    and "build_request w1 = build_request w"
    using make_request_step [OF add] by simp_all
  moreover have "sent w2 = sent w1 @
          [build_request w1 ''GET'' (''stories/'' @ str_int story_id @ ''/drafts'') None None]"
    using make_request_step(1) [OF lst [unfolded list_story_drafts_def]] .
  ultimately show "sent w2 = sent w @
           [build_request w ''PUT'' (''stories/'' @ str_int story_id) (Some add_tag_data) None,
            build_request w ''GET'' (''stories/'' @ str_int story_id @ ''/drafts'') None None]"
    by simp
qed

text \<open>The theorem at story 42, with replies that satisfy its hypotheses.\<close>

theorem create_story_draft_no_drafts_witness:
  "create_story_draft 42
     (example_world [Response 200 (JsonBody (JObj [(''id'', JInt 42)])),
                     Response 200 (JsonBody (JObj [(''drafts'', JArr [])]))])
   = (Inl (ValueError ''No draft was created''),
      (example_world [])\<lparr>sent :=
         [build_request (example_world []) ''PUT'' ''stories/42'' (Some add_tag_data) None,
          build_request (example_world []) ''GET'' ''stories/42/drafts'' None None]\<rparr>)"
proof -
  let ?w = "example_world [Response 200 (JsonBody (JObj [(''id'', JInt 42)])),
                     Response 200 (JsonBody (JObj [(''drafts'', JArr [])]))]"
  let ?added = "(example_world [Response 200 (JsonBody (JObj [(''drafts'', JArr [])]))])
               \<lparr>sent := [build_request (example_world []) ''PUT'' ''stories/42''
                            (Some add_tag_data) None]\<rparr>"
  let ?listed = "(example_world [])\<lparr>sent :=
         [build_request (example_world []) ''PUT'' ''stories/42'' (Some add_tag_data) None,
          build_request (example_world []) ''GET'' ''stories/42/drafts'' None None]\<rparr>"
  have a: "make_request ''PUT'' (''stories/'' @ str_int 42) (Some add_tag_data) None ?w
             = (Inr (JObj [(''id'', JInt 42)]), ?added)"
    by (simp add: make_request_def example_world_def is_error_status_def build_request_def
        str_int_42 Let_def)
  have l: "list_story_drafts 42 ?added = (Inr (JObj [(''drafts'', JArr [])]), ?listed)"
    by (simp add: list_story_drafts_def make_request_def example_world_def is_error_status_def
        build_request_def str_int_42 Let_def)
  have e: "dict_get [(''drafts'', JArr [])] ''drafts'' = Some (JArr [])"
    by (simp add: dict_get_def)
  show ?thesis
    using create_story_draft_no_drafts [OF a l e] by simp
qed

section \<open>Linking is idempotent (C4)\<close>

lemma add_source_JArr: "add_source s (JArr xs) = Inr (JArr (append_if_absent s xs))"
  by (simp add: append_if_absent_def)

lemma count_id_zero_iff: "count_id s xs = 0 \<longleftrightarrow> \<not> list_ex (py_eq_int s) xs"
  by (induction xs) (simp_all add: count_id_def)

lemma count_id_append_if_absent:
  "count_id s (append_if_absent s xs) = (if count_id s xs \<le> 1 then 1 else count_id s xs)"
proof (cases "list_ex (py_eq_int s) xs")
  case True
  then have "count_id s xs \<noteq> 0" by (simp add: count_id_zero_iff)
  with True show ?thesis by (auto simp: append_if_absent_def)
next
  case False
  then have "count_id s xs = 0" by (simp add: count_id_zero_iff)
  with False show ?thesis by (simp add: append_if_absent_def count_id_def)
qed

lemma append_if_absent_present: "list_ex (py_eq_int s) (append_if_absent s xs)"
  by (simp add: append_if_absent_def list_ex_iff)

lemma append_if_absent_idem:
  "append_if_absent s (append_if_absent s xs) = append_if_absent s xs"
  using append_if_absent_present [of s xs] by (simp add: append_if_absent_def [of s "append_if_absent s xs"])

lemma connect_actions_writes:
  assumes fetch: "make_request ''GET'' (''actions/'' @ str_int target) None None w
                    = (Inr (JObj target_action), w1)"
    and src: "dict_get target_action ''sources'' = Some (JArr fetched)"
  shows "source_ids_sent (snd (connect_actions story source target source_output draft_id w))
           = Some (JArr (append_if_absent source fetched))"
proof -
  have "\<And>v. dict_get (when_int draft_id (\<lambda>v. dict_set ''draft_id'' (JInt v))
                    [(''source_ids'', v)]) ''source_ids'' = Some v"
    by (cases draft_id) (simp_all add: dict_get_def)
  then show ?thesis
    using fetch src
    by (simp add: connect_actions_def add_source_JArr source_ids_sent_def sent_make_request
        build_request_def exec_def del: add_source.simps)
qed

text \<open>The claim as stated (for any fetched list the id is written exactly once) fails
  when the fetched list already holds the id twice: nothing is appended and nothing is
  removed, so the list written holds it twice.\<close>

theorem connect_actions_duplicates_counterexample:
  "source_ids_sent (snd (connect_actions 1 3 8 None None
      (example_world [Response 200 (JsonBody (JObj [(''id'', JInt 8),
                                                    (''sources'', JArr [JInt 3, JInt 3])])),
                      Response 200 (JsonBody (JObj [(''id'', JInt 8)]))])))
     = Some (JArr [JInt 3, JInt 3])
   \<and> count_id 3 [JInt 3, JInt 3] = 2"
  by (simp add: connect_actions_def make_request_def example_world_def is_error_status_def
      dict_get_def exec_def source_ids_sent_def build_request_def count_id_def Let_def)

text \<open>
  Claim C4, amended: once the target is fetched and its \<^verbatim>\<open>sources\<close> is a list,
  \<open>connect_actions\<close> issues the fetch and one update whose \<^verbatim>\<open>source_ids\<close> is the
  fetched list itself when some element of it equals the source id, and the fetched list
  with the id appended when none does (the \<^verbatim>\<open>draft_id\<close> follows when it is given and
  not 0). The list written holds the id exactly once when the fetched list held it at
  most once, and as often as the fetched list otherwise. A second run with the same ids,
  whose fetch returns the list the first run wrote, writes that same list again.
\<close>

theorem connect_actions_idempotent:
  assumes fetch1: "make_request ''GET'' (''actions/'' @ str_int target) None None w
                     = (Inr (JObj target_action), w_fetched)"
    and src1: "dict_get target_action ''sources'' = Some (JArr fetched)"
    and fetch2: "make_request ''GET'' (''actions/'' @ str_int target) None None w'
                     = (Inr (JObj target_action'), w_fetched')"
    and src2: "dict_get target_action' ''sources''
                 = source_ids_sent (snd (connect_actions story source target source_output draft_id w))"
  shows "sent (snd (connect_actions story source target source_output draft_id w)) = sent w @
           [build_request w ''GET'' (''actions/'' @ str_int target) None None,
            build_request w ''PUT'' (''actions/'' @ str_int target)
              (Some ((''source_ids'',
                      JArr (if list_ex (py_eq_int source) fetched then fetched
                            else fetched @ [JInt source])) #
                     (case draft_id of
                        None \<Rightarrow> []
                      | Some d \<Rightarrow> if d \<noteq> 0 then [(''draft_id'', JInt d)] else []))) None]
       \<and> source_ids_sent (snd (connect_actions story source target source_output draft_id w))
             = Some (JArr (if list_ex (py_eq_int source) fetched then fetched
                           else fetched @ [JInt source]))
       \<and> source_ids_sent (snd (connect_actions story source target source_output draft_id w'))
             = Some (JArr (if list_ex (py_eq_int source) fetched then fetched
                           else fetched @ [JInt source]))
       \<and> count_id source (if list_ex (py_eq_int source) fetched then fetched
                           else fetched @ [JInt source])
             = (if count_id source fetched \<le> 1 then 1 else count_id source fetched)"
proof -
  let ?out = "append_if_absent source fetched"
  have out: "(if list_ex (py_eq_int source) fetched then fetched else fetched @ [JInt source])
               = ?out"
    by (simp add: append_if_absent_def)
  have "sent w_fetched
          = sent w @ [build_request w ''GET'' (''actions/'' @ str_int target) None None]"
    and "build_request w_fetched = build_request w"
    using make_request_step [OF fetch1] by simp_all
  then have reqs: "sent (snd (connect_actions story source target source_output draft_id w))
      = sent w @
           [build_request w ''GET'' (''actions/'' @ str_int target) None None,
            build_request w ''PUT'' (''actions/'' @ str_int target)
              (Some ((''source_ids'', JArr ?out) #
                     (case draft_id of
                        None \<Rightarrow> []
                      | Some d \<Rightarrow> if d \<noteq> 0 then [(''draft_id'', JInt d)] else []))) None]"
    using fetch1 src1
    by (cases draft_id)
       (simp_all add: connect_actions_def add_source_JArr sent_make_request exec_def
          del: add_source.simps)
  have one: "source_ids_sent (snd (connect_actions story source target source_output draft_id w))
               = Some (JArr ?out)"
    using fetch1 src1 by (rule connect_actions_writes)
  with src2 have "dict_get target_action' ''sources'' = Some (JArr ?out)"
    by simp
  with fetch2
  have "source_ids_sent (snd (connect_actions story source target source_output draft_id w'))
               = Some (JArr (append_if_absent source ?out))"
    by (rule connect_actions_writes)
  then have two: "source_ids_sent (snd (connect_actions story source target source_output draft_id w'))
               = Some (JArr ?out)"
    by (simp only: append_if_absent_idem)
  have cnt: "count_id source ?out
               = (if count_id source fetched \<le> 1 then 1 else count_id source fetched)"
    by (rule count_id_append_if_absent)
  show ?thesis
    unfolding out using reqs one two cnt by (intro conjI)
qed

text \<open>Two runs linking action 3 to action 8, whose sources are \<open>[5]\<close> at first: both
  write \<open>[5, 3]\<close>, the first in the second of its two requests.\<close>

theorem connect_actions_idempotent_witness:
  "map json_data (sent (snd (connect_actions 1 3 8 None None
      (example_world [Response 200 (JsonBody (JObj [(''sources'', JArr [JInt 5])])),
                      Response 200 (JsonBody (JObj [(''id'', JInt 8)]))]))))
     = [None, Some [(''source_ids'', JArr [JInt 5, JInt 3])]]
   \<and> source_ids_sent (snd (connect_actions 1 3 8 None None
      (example_world [Response 200 (JsonBody (JObj [(''sources'', JArr [JInt 5, JInt 3])])),
                      Response 200 (JsonBody (JObj [(''id'', JInt 8)]))])))
     = Some (JArr [JInt 5, JInt 3])
   \<and> count_id 3 [JInt 5, JInt 3] = 1"
proof -
  let ?w = "example_world [Response 200 (JsonBody (JObj [(''sources'', JArr [JInt 5])])),
                      Response 200 (JsonBody (JObj [(''id'', JInt 8)]))]"
  let ?w' = "example_world [Response 200 (JsonBody (JObj [(''sources'', JArr [JInt 5, JInt 3])])),
                      Response 200 (JsonBody (JObj [(''id'', JInt 8)]))]"
  have run1: "source_ids_sent (snd (connect_actions 1 3 8 None None ?w))
                = Some (JArr [JInt 5, JInt 3])"
    by (simp add: connect_actions_def make_request_def example_world_def is_error_status_def
        dict_get_def exec_def source_ids_sent_def build_request_def Let_def)
  obtain wa where f1: "make_request ''GET'' (''actions/'' @ str_int 8) None None ?w
                         = (Inr (JObj [(''sources'', JArr [JInt 5])]), wa)"
    by (simp add: make_request_def example_world_def is_error_status_def Let_def)
  have s1: "dict_get [(''sources'', JArr [JInt 5])] ''sources'' = Some (JArr [JInt 5])"
    by (simp add: dict_get_def)
  obtain wb where f2: "make_request ''GET'' (''actions/'' @ str_int 8) None None ?w'
                         = (Inr (JObj [(''sources'', JArr [JInt 5, JInt 3])]), wb)"
    by (simp add: make_request_def example_world_def is_error_status_def Let_def)
  have s2: "dict_get [(''sources'', JArr [JInt 5, JInt 3])] ''sources''
              = source_ids_sent (snd (connect_actions 1 3 8 None None ?w))"
    by (simp add: run1 dict_get_def)
  have absent: "\<not> list_ex (py_eq_int 3) [JInt 5]" by simp
  note facts = connect_actions_idempotent [OF f1 s1 f2 s2]
  from facts [THEN conjunct1] absent
  have a: "map json_data (sent (snd (connect_actions 1 3 8 None None ?w)))
     = [None, Some [(''source_ids'', JArr [JInt 5, JInt 3])]]"
    by (simp add: build_request_def example_world_def)
  from facts [THEN conjunct2, THEN conjunct2, THEN conjunct1] absent
  have b: "source_ids_sent (snd (connect_actions 1 3 8 None None ?w'))
     = Some (JArr [JInt 5, JInt 3])"
    by simp
  from facts [THEN conjunct2, THEN conjunct2, THEN conjunct2] absent
  have c: "count_id 3 [JInt 5, JInt 3] = 1"
    by (simp add: count_id_def)
  from a b c show ?thesis by (intro conjI)
qed

section \<open>Page size (C5)\<close>

text \<open>
  Claim C5: for every integer \<open>n\<close> given as \<^verbatim>\<open>per_page\<close>, \<open>list_stories\<close> issues one
  request whose query has \<^verbatim>\<open>per_page\<close> equal to \<open>min n 500\<close>, whatever the other
  arguments are; so 1000 is sent as 500.
\<close>

theorem list_stories_per_page_clamped:
  "(\<exists>rq ps. sent (snd (list_stories team_id folder_id (Some n) page tags search filter_by order w))
              = sent w @ [rq]
         \<and> params rq = Some ps
         \<and> dict_get ps ''per_page'' = Some (SInt (min n 500)))
   \<and> params (last (sent (snd (list_stories None None (Some 1000) None None None None None w))))
       = Some [(''per_page'', SInt 500)]"
  by (simp add: list_stories_def sent_make_request build_request_def exec_def
      dict_get_when_not_None_other dict_get_when_str_other dict_get_dict_set)

section \<open>The target URL (C6)\<close>

lemma url_make_request:
  "url (last (sent (snd (make_request m endpoint d p w)))) = build_url (BASE_URL w) endpoint"
  by (simp add: last_sent_make_request build_request_def)

lemma build_url_split:
  "\<exists>b e i j. base = b @ replicate i CHR ''/'' \<and> endpoint = replicate j CHR ''/'' @ e
         \<and> \<not> (\<exists>t. b = t @ ''/'') \<and> \<not> (\<exists>t. e = ''/'' @ t)
         \<and> build_url base endpoint = b @ ''/'' @ e"
proof (intro exI conjI)
  show "base = rstrip_slash base
          @ replicate (length (takeWhile (\<lambda>c. c = CHR ''/'') (rev base))) CHR ''/''"
    by (rule rstrip_slash_split)
  show "endpoint = replicate (length (takeWhile (\<lambda>c. c = CHR ''/'') endpoint)) CHR ''/''
          @ lstrip_slash endpoint"
    by (rule lstrip_slash_split)
  show "\<not> (\<exists>t. rstrip_slash base = t @ ''/'')"
    using rstrip_slash_no_trailing by blast
  show "\<not> (\<exists>t. lstrip_slash endpoint = ''/'' @ t)"
    using lstrip_slash_no_leading by simp
  show "build_url base endpoint = rstrip_slash base @ ''/'' @ lstrip_slash endpoint"
    by (simp add: build_url_def)
qed

lemma build_url_eq_spec:
  "\<not> (\<exists>t. base = t @ ''//'') \<Longrightarrow> \<not> (\<exists>t. endpoint = ''//'' @ t) \<Longrightarrow>
     build_url base endpoint = spec_build_url base endpoint"
  by (simp add: build_url_def spec_build_url_def rstrip_slash_eq_one lstrip_slash_eq_one)

text \<open>The claim as stated (strip exactly one slash on each side) fails. The request
  that \<open>make_request\<close> sends for the endpoint \<^verbatim>\<open>//stories\<close> goes to a URL with one slash
  before \<^verbatim>\<open>stories\<close>, where the rule of the specification leaves two; and likewise for a
  configured base that ends in two slashes.\<close>

theorem make_request_url_one_slash_counterexample:
  "url (last (sent (snd (make_request ''GET'' ''//stories'' None None (example_world [])))))
     = ''https://t.tines.com/api/v1/stories''
   \<and> spec_build_url (BASE_URL (example_world [])) ''//stories''
     = ''https://t.tines.com/api/v1//stories''
   \<and> url (last (sent (snd (make_request ''GET'' ''stories'' None None
            ((example_world [])\<lparr>BASE_URL := ''https://t.tines.com/api/v1//''\<rparr>)))))
     = ''https://t.tines.com/api/v1/stories''
   \<and> spec_build_url ''https://t.tines.com/api/v1//'' ''stories''
     = ''https://t.tines.com/api/v1//stories''"
  by (simp add: url_make_request example_world_def build_url_def spec_build_url_def
      rstrip_slash_def lstrip_slash_def strip_one_trailing_slash_def
      strip_one_leading_slash_def)

text \<open>
  Claim C6, amended: the URL of the request that \<open>make_request\<close> sends is the configured
  base without any of its trailing slashes, one slash, and the endpoint without any of
  its leading slashes; where the base does not end in two slashes and the endpoint does
  not start with two, this is the URL of the specification's strip-one rule.
\<close>

theorem make_request_url_strips_every_slash:
  "(\<exists>b e i j. BASE_URL w = b @ replicate i CHR ''/'' \<and> endpoint = replicate j CHR ''/'' @ e
         \<and> \<not> (\<exists>t. b = t @ ''/'') \<and> \<not> (\<exists>t. e = ''/'' @ t)
         \<and> url (last (sent (snd (make_request m endpoint d p w)))) = b @ ''/'' @ e)
   \<and> (\<not> (\<exists>t. BASE_URL w = t @ ''//'') \<and> \<not> (\<exists>t. endpoint = ''//'' @ t)
        \<longrightarrow> url (last (sent (snd (make_request m endpoint d p w))))
              = spec_build_url (BASE_URL w) endpoint)"
proof (intro conjI impI)
  show "\<exists>b e i j. BASE_URL w = b @ replicate i CHR ''/'' \<and> endpoint = replicate j CHR ''/'' @ e
         \<and> \<not> (\<exists>t. b = t @ ''/'') \<and> \<not> (\<exists>t. e = ''/'' @ t)
         \<and> url (last (sent (snd (make_request m endpoint d p w)))) = b @ ''/'' @ e"
    unfolding url_make_request by (rule build_url_split)
next
  assume "\<not> (\<exists>t. BASE_URL w = t @ ''//'') \<and> \<not> (\<exists>t. endpoint = ''//'' @ t)"
  then show "url (last (sent (snd (make_request m endpoint d p w))))
               = spec_build_url (BASE_URL w) endpoint"
    unfolding url_make_request by (simp add: build_url_eq_spec)
qed

text \<open>The agreement with the specification's rule, for a base with one trailing slash
  and an endpoint with one leading slash.\<close>

theorem make_request_url_strips_every_slash_witness:
  "url (last (sent (snd (make_request ''GET'' ''/stories'' None None
          ((example_world [])\<lparr>BASE_URL := ''https://t.tines.com/api/v1/''\<rparr>)))))
     = spec_build_url ''https://t.tines.com/api/v1/'' ''/stories''
   \<and> spec_build_url ''https://t.tines.com/api/v1/'' ''/stories''
     = ''https://t.tines.com/api/v1/stories''"
proof -
  let ?cfg = "(example_world [])\<lparr>BASE_URL := ''https://t.tines.com/api/v1/''\<rparr>"
  have base: "BASE_URL ?cfg = ''https://t.tines.com/api/v1/''"
    by (simp add: example_world_def)
  have h: "\<not> (\<exists>t. BASE_URL ?cfg = t @ ''//'') \<and> \<not> (\<exists>t. ''/stories'' = ''//'' @ t)"
    unfolding base by (simp add: append_eq_Cons_conv snoc_eq_iff_butlast)
  have "url (last (sent (snd (make_request ''GET'' ''/stories'' None None ?cfg))))
          = spec_build_url (BASE_URL ?cfg) ''/stories''"
    using make_request_url_strips_every_slash
      [where w = ?cfg and endpoint = "''/stories''" and m = "''GET''" and d = None and p = None,
       THEN conjunct2] h
    by (rule_tac mp)
  then have a: "url (last (sent (snd (make_request ''GET'' ''/stories'' None None ?cfg))))
          = spec_build_url ''https://t.tines.com/api/v1/'' ''/stories''"
    unfolding base .
  have b: "spec_build_url ''https://t.tines.com/api/v1/'' ''/stories''
     = ''https://t.tines.com/api/v1/stories''"
    by (simp add: spec_build_url_def strip_one_trailing_slash_def strip_one_leading_slash_def)
  from a b show ?thesis by (intro conjI)
qed

section \<open>Notes without a target or without a change (C7)\<close>

text \<open>
  Claim C7: \<open>create_note\<close> with neither a story id nor a group id, and \<open>update_note\<close>
  with neither content nor position, fail with a \<^verbatim>\<open>ValueError\<close> (the specification's
  ValidationError) and leave the world as it was: no request is issued.
\<close>

theorem create_note_update_note_validate_first:
  "create_note content None None position draft_id w =
     (Inl (ValueError ''Either story_id or group_id must be provided''), w)
   \<and> update_note note_id None None w =
     (Inl (ValueError ''At least one of content or position must be provided''), w)"
  by (simp add: create_note_def update_note_def exec_def)

section \<open>Calls with the required arguments only (C8)\<close>

lemma list_stories_required_only:
  "last (sent (snd (list_stories None None None None None None None None w)))
     = build_request w ''GET'' ''stories'' None (Some [])"
  by (simp add: list_stories_def last_sent_make_request exec_def)

lemma get_story_required_only:
  "last (sent (snd (get_story story_id None None w)))
     = build_request w ''GET'' (''stories/'' @ str_int story_id) None (Some [])"
  by (simp add: get_story_def last_sent_make_request exec_def)

lemma create_story_required_only:
  "last (sent (snd (create_story team_id None None None None None None None w)))
     = build_request w ''POST'' ''stories'' (Some [(''team_id'', JInt team_id)]) None"
  by (simp add: create_story_def last_sent_make_request exec_def)

lemma update_story_required_only:
  "last (sent (snd (update_story story_id no_update_story_args w)))
     = build_request w ''PUT'' (''stories/'' @ str_int story_id) (Some []) None"
  by (simp add: update_story_def no_update_story_args_def last_sent_make_request exec_def)

lemma search_stories_required_only:
  "last (sent (snd (search_stories query_str None Omitted w)))
     = build_request w ''GET'' ''stories'' None
         (Some ((''per_page'', SInt 20) #
                (if query_str = [] then [] else [(''search'', SStr query_str)])))"
  by (simp add: search_stories_def list_stories_def last_sent_make_request exec_def)

lemma get_high_priority_stories_required_only:
  "last (sent (snd (get_high_priority_stories None Omitted w)))
     = build_request w ''GET'' ''stories'' None
         (Some [(''per_page'', SInt 20), (''filter'', SStr ''HIGH_PRIORITY'')])"
  by (simp add: get_high_priority_stories_def list_stories_def last_sent_make_request exec_def)

lemma get_disabled_stories_required_only:
  "last (sent (snd (get_disabled_stories None Omitted w)))
     = build_request w ''GET'' ''stories'' None
         (Some [(''per_page'', SInt 20), (''filter'', SStr ''DISABLED'')])"
  by (simp add: get_disabled_stories_def list_stories_def last_sent_make_request exec_def)

lemma get_story_actions_required_only:
  "last (sent (snd (get_story_actions story_id None w)))
     = build_request w ''GET'' (''agents?story_id='' @ str_int story_id) None None"
  by (simp add: get_story_actions_def last_sent_make_request exec_def query_string_def)

lemma create_action_required_only:
  "last (sent (snd (create_action story_id action_type name None None None w)))
     = build_request w ''POST'' ''actions''
         (Some [(''type'', JStr action_type), (''name'', JStr name),
                (''story_id'', JStr (str_int story_id)),
                (''position'', default_action_position)]) None"
  by (simp add: create_action_def last_sent_make_request exec_def default_action_position_def)

lemma create_event_transform_action_required_only:
  "last (sent (snd (create_event_transform_action story_id name draft_id Omitted None None None w)))
     = build_request w ''POST'' ''actions''
         (Some [(''type'', JStr ''Agents::EventTransformationAgent''), (''name'', JStr name),
                (''story_id'', JStr (str_int story_id)), (''draft_id'', JInt draft_id),
                (''options'', JObj [(''mode'', JStr ''message'')]),
                (''position'', default_action_position)]) None"
  by (simp add: create_event_transform_action_def create_action_def last_sent_make_request
      exec_def default_action_position_def)

lemma create_webhook_action_required_only:
  "last (sent (snd (create_webhook_action story_id name draft_id None None w)))
     = build_request w ''POST'' ''actions''
         (Some [(''type'', JStr ''Agents::WebhookAgent''), (''name'', JStr name),
                (''story_id'', JStr (str_int story_id)), (''draft_id'', JInt draft_id),
                (''position'', default_action_position)]) None"
  by (simp add: create_webhook_action_def create_action_def last_sent_make_request
      exec_def default_action_position_def)

lemma create_email_action_required_only:
  "last (sent (snd (create_email_action story_id name draft_id to subject body_text
                      None None None Omitted None w)))
     = build_request w ''POST'' ''actions''
         (Some [(''type'', JStr ''Agents::EmailAgent''), (''name'', JStr name),
                (''story_id'', JStr (str_int story_id)), (''draft_id'', JInt draft_id),
                (''options'', JObj [(''to'', JStr to), (''subject'', JStr subject),
                                    (''body'', JStr body_text),
                                    (''content_type'', JStr ''text/html'')]),
                (''position'', default_action_position)]) None"
  by (simp add: create_email_action_def create_action_def last_sent_make_request
      exec_def default_action_position_def)

lemma create_imap_action_required_only:
  "last (sent (snd (create_imap_action story_id name draft_id host username password
                      Omitted Omitted Omitted None None w)))
     = build_request w ''POST'' ''actions''
         (Some [(''type'', JStr ''Agents::IMAPAgent''), (''name'', JStr name),
                (''story_id'', JStr (str_int story_id)), (''draft_id'', JInt draft_id),
                (''options'', JObj [(''host'', JStr host), (''username'', JStr username),
                                    (''password'', JStr password), (''port'', JInt 993),
                                    (''ssl'', JBool True), (''folder'', JStr ''INBOX'')]),
                (''position'', default_action_position)]) None"
  by (simp add: create_imap_action_def create_action_def last_sent_make_request
      exec_def default_action_position_def)

lemma create_send_to_story_action_required_only:
  "last (sent (snd (create_send_to_story_action story_id name draft_id target_story_id
                      None None w)))
     = build_request w ''POST'' ''actions''
         (Some [(''type'', JStr ''Agents::SendToStoryAgent''), (''name'', JStr name),
                (''story_id'', JStr (str_int story_id)), (''draft_id'', JInt draft_id),
                (''options'', JObj [(''story_id'', JInt target_story_id)]),
                (''position'', default_action_position)]) None"
  by (simp add: create_send_to_story_action_def create_action_def last_sent_make_request
      exec_def default_action_position_def)

lemma create_trigger_action_required_only:
  "last (sent (snd (create_trigger_action story_id name draft_id rules None None w)))
     = build_request w ''POST'' ''actions''
         (Some [(''type'', JStr ''Agents::TriggerAgent''), (''name'', JStr name),
                (''story_id'', JStr (str_int story_id)), (''draft_id'', JInt draft_id),
                (''options'', JObj [(''rules'', JArr (map JObj rules))]),
                (''position'', default_action_position)]) None"
  by (simp add: create_trigger_action_def create_action_def last_sent_make_request
      exec_def default_action_position_def)

lemma create_group_action_required_only:
  "last (sent (snd (create_group_action story_id name draft_id group_story_id None w)))
     = build_request w ''POST'' ''actions''
         (Some [(''type'', JStr ''Agents::GroupAgent''), (''name'', JStr name),
                (''story_id'', JStr (str_int story_id)), (''draft_id'', JInt draft_id),
                (''options'', JObj [(''group_story_id'', JInt group_story_id)]),
                (''position'', default_action_position)]) None"
  by (simp add: create_group_action_def create_action_def last_sent_make_request
      exec_def default_action_position_def)

lemma create_llm_action_required_only:
  "last (sent (snd (create_llm_action story_id name prompt draft_id Omitted None w)))
     = build_request w ''POST'' ''actions''
         (Some [(''type'', JStr ''Agents::LLMAgent''), (''name'', JStr name),
                (''story_id'', JStr (str_int story_id)), (''draft_id'', JInt draft_id),
                (''options'', JObj [(''prompt'', JStr prompt), (''json_mode'', JBool False)]),
                (''position'', default_action_position)]) None"
  by (simp add: create_llm_action_def create_action_def last_sent_make_request
      exec_def default_action_position_def)

lemma update_action_required_only:
  "last (sent (snd (update_action story_id action_id None None None None w)))
     = build_request w ''PUT'' (''actions/'' @ str_int action_id) (Some []) None"
  by (simp add: update_action_def last_sent_make_request exec_def)

lemma list_notes_required_only:
  "last (sent (snd (list_notes None None None None None None None w)))
     = build_request w ''GET'' ''notes'' None None"
  by (simp add: list_notes_def last_sent_make_request exec_def query_string_def)

lemma create_note_required_only:
  "create_note content None None None None w =
     (Inl (ValueError ''Either story_id or group_id must be provided''), w)"
  by (simp add: create_note_def)

lemma create_note_story_only:
  "story_id \<noteq> 0 \<Longrightarrow>
   last (sent (snd (create_note content (Some story_id) None None None w)))
     = build_request w ''POST'' ''notes''
         (Some [(''content'', JStr content), (''story_id'', JInt story_id),
                (''position'', default_note_position)]) None"
  by (simp add: create_note_def last_sent_make_request exec_def default_note_position_def)

lemma create_note_group_only:
  "group_id \<noteq> 0 \<Longrightarrow>
   last (sent (snd (create_note content None (Some group_id) None None w)))
     = build_request w ''POST'' ''notes''
         (Some [(''content'', JStr content), (''group_id'', JInt group_id),
                (''position'', default_note_position)]) None"
  by (simp add: create_note_def last_sent_make_request exec_def default_note_position_def)

lemma update_note_required_only:
  "update_note note_id None None w =
     (Inl (ValueError ''At least one of content or position must be provided''), w)"
  by (simp add: update_note_def exec_def)

lemma connect_actions_required_only:
  assumes fetch: "make_request ''GET'' (''actions/'' @ str_int target) None None w
                    = (Inr (JObj target_action), w1)"
    and src: "dict_get target_action ''sources'' = Some (JArr fetched)"
  shows "sent (snd (connect_actions story source target None None w)) = sent w @
           [build_request w ''GET'' (''actions/'' @ str_int target) None None,
            build_request w ''PUT'' (''actions/'' @ str_int target)
              (Some [(''source_ids'', JArr (append_if_absent source fetched))]) None]"
proof -
  have "sent w1 = sent w @ [build_request w ''GET'' (''actions/'' @ str_int target) None None]"
    and "build_request w1 = build_request w"
    using make_request_step [OF fetch] by simp_all
  then show ?thesis
    using fetch src
    by (simp add: connect_actions_def add_source_JArr sent_make_request exec_def
        del: add_source.simps)
qed

text \<open>The claim as stated (no default beyond the positions and the email content type)
  fails: \<open>search_stories\<close> called with the query alone sends \<^verbatim>\<open>per_page\<close> 20, and an
  LLM action created with its required arguments carries \<^verbatim>\<open>json_mode\<close> false.\<close>

theorem required_arguments_only_counterexample:
  "params (last (sent (snd (search_stories ''phish'' None Omitted (example_world [])))))
     = Some [(''per_page'', SInt 20), (''search'', SStr ''phish'')]
   \<and> json_data (last (sent (snd (create_llm_action 5 ''triage'' ''Summarise'' 9 Omitted None
                                      (example_world [])))))
     = Some [(''type'', JStr ''Agents::LLMAgent''), (''name'', JStr ''triage''),
             (''story_id'', JStr ''5''), (''draft_id'', JInt 9),
             (''options'', JObj [(''prompt'', JStr ''Summarise''), (''json_mode'', JBool False)]),
             (''position'', JObj [(''x'', JInt 100), (''y'', JInt 100)])]"
proof -
  have "str_int 5 = ''5''" by code_simp
  then show ?thesis
    by (simp add: search_stories_def list_stories_def create_llm_action_def create_action_def
        last_sent_make_request exec_def build_request_def)
qed

text \<open>
  Claim C8, amended: called with its required arguments only, an operation sends a body
  or query that holds the required fields (an empty search string is left out by
  \<open>search_stories\<close>, the empty options of a webhook action are left out) and the defaults
  the code injects: the position \<open>{x: 100, y: 100}\<close> for actions and \<open>{x: 0, y: 0}\<close>
  for notes, the content type \<^verbatim>\<open>text/html\<close> for email actions, and also \<^verbatim>\<open>per_page\<close> 20 in
  the three story presets, the mode \<^verbatim>\<open>message\<close> for event transform actions, port 993,
  \<^verbatim>\<open>ssl\<close> true and folder \<^verbatim>\<open>INBOX\<close> for IMAP actions and \<^verbatim>\<open>json_mode\<close> false for LLM
  actions. No field is null. \<open>create_note\<close> with the content only and \<open>update_note\<close>
  with the note id only send nothing and fail; a note needs a non-zero story or group id,
  and \<open>connect_actions\<close> writes \<^verbatim>\<open>source_ids\<close> alone once the target is fetched.
\<close>

theorem required_arguments_only:
  "(story_id \<noteq> 0 \<longrightarrow>
      last (sent (snd (create_note content (Some story_id) None None None w)))
        = build_request w ''POST'' ''notes''
            (Some [(''content'', JStr content), (''story_id'', JInt story_id),
                   (''position'', default_note_position)]) None)
   \<and> (group_id \<noteq> 0 \<longrightarrow>
      last (sent (snd (create_note content None (Some group_id) None None w)))
        = build_request w ''POST'' ''notes''
            (Some [(''content'', JStr content), (''group_id'', JInt group_id),
                   (''position'', default_note_position)]) None)
   \<and> (make_request ''GET'' (''actions/'' @ str_int target) None None w
          = (Inr (JObj target_action), w_fetched)
        \<and> dict_get target_action ''sources'' = Some (JArr fetched) \<longrightarrow>
      (\<exists>out. sent (snd (connect_actions story_id source target None None w)) = sent w @
           [build_request w ''GET'' (''actions/'' @ str_int target) None None,
            build_request w ''PUT'' (''actions/'' @ str_int target)
              (Some [(''source_ids'', JArr out)]) None]))
   \<and> create_note content None None None None w
        = (Inl (ValueError ''Either story_id or group_id must be provided''), w)
   \<and> update_note note_id None None w
        = (Inl (ValueError ''At least one of content or position must be provided''), w)
   \<and> last (sent (snd (list_stories None None None None None None None None w)))
        = build_request w ''GET'' ''stories'' None (Some [])
   \<and> last (sent (snd (get_story story_id None None w)))
        = build_request w ''GET'' (''stories/'' @ str_int story_id) None (Some [])
   \<and> last (sent (snd (create_story team_id None None None None None None None w)))
        = build_request w ''POST'' ''stories'' (Some [(''team_id'', JInt team_id)]) None
   \<and> last (sent (snd (update_story story_id no_update_story_args w)))
        = build_request w ''PUT'' (''stories/'' @ str_int story_id) (Some []) None
   \<and> last (sent (snd (search_stories query_str None Omitted w)))
        = build_request w ''GET'' ''stories'' None
            (Some ((''per_page'', SInt 20) #
                   (if query_str = [] then [] else [(''search'', SStr query_str)])))
   \<and> last (sent (snd (get_high_priority_stories None Omitted w)))
        = build_request w ''GET'' ''stories'' None
            (Some [(''per_page'', SInt 20), (''filter'', SStr ''HIGH_PRIORITY'')])
   \<and> last (sent (snd (get_disabled_stories None Omitted w)))
        = build_request w ''GET'' ''stories'' None
            (Some [(''per_page'', SInt 20), (''filter'', SStr ''DISABLED'')])
   \<and> last (sent (snd (get_story_actions story_id None w)))
        = build_request w ''GET'' (''agents?story_id='' @ str_int story_id) None None
   \<and> last (sent (snd (list_notes None None None None None None None w)))
        = build_request w ''GET'' ''notes'' None None
   \<and> last (sent (snd (update_action story_id action_id None None None None w)))
        = build_request w ''PUT'' (''actions/'' @ str_int action_id) (Some []) None
   \<and> last (sent (snd (create_action story_id action_type name None None None w)))
        = build_request w ''POST'' ''actions''
            (Some [(''type'', JStr action_type), (''name'', JStr name),
                   (''story_id'', JStr (str_int story_id)),
                   (''position'', default_action_position)]) None
   \<and> last (sent (snd (create_event_transform_action story_id name draft_id Omitted
                         None None None w)))
        = build_request w ''POST'' ''actions''
            (Some [(''type'', JStr ''Agents::EventTransformationAgent''), (''name'', JStr name),
                   (''story_id'', JStr (str_int story_id)), (''draft_id'', JInt draft_id),
                   (''options'', JObj [(''mode'', JStr ''message'')]),
                   (''position'', default_action_position)]) None
   \<and> last (sent (snd (create_webhook_action story_id name draft_id None None w)))
        = build_request w ''POST'' ''actions''
            (Some [(''type'', JStr ''Agents::WebhookAgent''), (''name'', JStr name),
                   (''story_id'', JStr (str_int story_id)), (''draft_id'', JInt draft_id),
                   (''position'', default_action_position)]) None
   \<and> last (sent (snd (create_email_action story_id name draft_id to subject body_text
                         None None None Omitted None w)))
        = build_request w ''POST'' ''actions''
            (Some [(''type'', JStr ''Agents::EmailAgent''), (''name'', JStr name),
                   (''story_id'', JStr (str_int story_id)), (''draft_id'', JInt draft_id),
                   (''options'', JObj [(''to'', JStr to), (''subject'', JStr subject),
                                       (''body'', JStr body_text),
                                       (''content_type'', JStr ''text/html'')]),
                   (''position'', default_action_position)]) None
   \<and> last (sent (snd (create_imap_action story_id name draft_id host username password
                         Omitted Omitted Omitted None None w)))
        = build_request w ''POST'' ''actions''
            (Some [(''type'', JStr ''Agents::IMAPAgent''), (''name'', JStr name),
                   (''story_id'', JStr (str_int story_id)), (''draft_id'', JInt draft_id),
                   (''options'', JObj [(''host'', JStr host), (''username'', JStr username),
                                       (''password'', JStr password), (''port'', JInt 993),
                                       (''ssl'', JBool True), (''folder'', JStr ''INBOX'')]),
                   (''position'', default_action_position)]) None
   \<and> last (sent (snd (create_send_to_story_action story_id name draft_id target_story_id
                         None None w)))
        = build_request w ''POST'' ''actions''
            (Some [(''type'', JStr ''Agents::SendToStoryAgent''), (''name'', JStr name),
                   (''story_id'', JStr (str_int story_id)), (''draft_id'', JInt draft_id),
                   (''options'', JObj [(''story_id'', JInt target_story_id)]),
                   (''position'', default_action_position)]) None
   \<and> last (sent (snd (create_trigger_action story_id name draft_id rules None None w)))
        = build_request w ''POST'' ''actions''
            (Some [(''type'', JStr ''Agents::TriggerAgent''), (''name'', JStr name),
                   (''story_id'', JStr (str_int story_id)), (''draft_id'', JInt draft_id),
                   (''options'', JObj [(''rules'', JArr (map JObj rules))]),
                   (''position'', default_action_position)]) None
   \<and> last (sent (snd (create_group_action story_id name draft_id group_story_id None w)))
        = build_request w ''POST'' ''actions''
            (Some [(''type'', JStr ''Agents::GroupAgent''), (''name'', JStr name),
                   (''story_id'', JStr (str_int story_id)), (''draft_id'', JInt draft_id),
                   (''options'', JObj [(''group_story_id'', JInt group_story_id)]),
                   (''position'', default_action_position)]) None
   \<and> last (sent (snd (create_llm_action story_id name prompt draft_id Omitted None w)))
        = build_request w ''POST'' ''actions''
            (Some [(''type'', JStr ''Agents::LLMAgent''), (''name'', JStr name),
                   (''story_id'', JStr (str_int story_id)), (''draft_id'', JInt draft_id),
                   (''options'', JObj [(''prompt'', JStr prompt), (''json_mode'', JBool False)]),
                   (''position'', default_action_position)]) None"
proof -
  have connect: "make_request ''GET'' (''actions/'' @ str_int target) None None w
          = (Inr (JObj target_action), w_fetched)
        \<and> dict_get target_action ''sources'' = Some (JArr fetched) \<longrightarrow>
      (\<exists>out. sent (snd (connect_actions story_id source target None None w)) = sent w @
           [build_request w ''GET'' (''actions/'' @ str_int target) None None,
            build_request w ''PUT'' (''actions/'' @ str_int target)
              (Some [(''source_ids'', JArr out)]) None])"
  proof (intro impI, elim conjE)
    assume "make_request ''GET'' (''actions/'' @ str_int target) None None w
              = (Inr (JObj target_action), w_fetched)"
      and "dict_get target_action ''sources'' = Some (JArr fetched)"
    then show "\<exists>out. sent (snd (connect_actions story_id source target None None w)) = sent w @
           [build_request w ''GET'' (''actions/'' @ str_int target) None None,
            build_request w ''PUT'' (''actions/'' @ str_int target)
              (Some [(''source_ids'', JArr out)]) None]"
      by (intro exI [where x = "append_if_absent source fetched"])
         (rule connect_actions_required_only)
  qed
  show ?thesis
    by (intro conjI impI connect
        create_note_story_only create_note_group_only create_note_required_only
        update_note_required_only list_stories_required_only get_story_required_only
        create_story_required_only update_story_required_only search_stories_required_only
        get_high_priority_stories_required_only get_disabled_stories_required_only
        get_story_actions_required_only list_notes_required_only update_action_required_only
        create_action_required_only create_event_transform_action_required_only
        create_webhook_action_required_only create_email_action_required_only
        create_imap_action_required_only create_send_to_story_action_required_only
        create_trigger_action_required_only create_group_action_required_only
        create_llm_action_required_only)
qed

text \<open>The three conditional parts at concrete calls: a note on story 5, a note on group
  6, and a link from action 3 to action 8 whose fetched sources are \<open>[5]\<close>.\<close>

theorem required_arguments_only_witness:
  "last (sent (snd (create_note ''hello'' (Some 5) None None None (example_world []))))
     = build_request (example_world []) ''POST'' ''notes''
         (Some [(''content'', JStr ''hello''), (''story_id'', JInt 5),
                (''position'', default_note_position)]) None
   \<and> last (sent (snd (create_note ''hello'' None (Some 6) None None (example_world []))))
     = build_request (example_world []) ''POST'' ''notes''
         (Some [(''content'', JStr ''hello''), (''group_id'', JInt 6),
                (''position'', default_note_position)]) None
   \<and> map json_data (sent (snd (connect_actions 5 3 8 None None
        (example_world [Response 200 (JsonBody (JObj [(''sources'', JArr [JInt 5])])),
                        Response 200 (JsonBody (JObj [(''id'', JInt 8)]))]))))
     = [None, Some [(''source_ids'', JArr [JInt 5, JInt 3])]]"
proof -
  let ?idle = "example_world []"
  let ?w = "example_world [Response 200 (JsonBody (JObj [(''sources'', JArr [JInt 5])])),
                        Response 200 (JsonBody (JObj [(''id'', JInt 8)]))]"
  note inst = required_arguments_only [where story_id = 5 and group_id = 6 and content = "''hello''"]
  have n1: "last (sent (snd (create_note ''hello'' (Some 5) None None None ?idle)))
     = build_request ?idle ''POST'' ''notes''
         (Some [(''content'', JStr ''hello''), (''story_id'', JInt 5),
                (''position'', default_note_position)]) None"
    using inst [where w = ?idle, THEN conjunct1] by simp
  have n2: "last (sent (snd (create_note ''hello'' None (Some 6) None None ?idle)))
     = build_request ?idle ''POST'' ''notes''
         (Some [(''content'', JStr ''hello''), (''group_id'', JInt 6),
                (''position'', default_note_position)]) None"
    using inst [where w = ?idle, THEN conjunct2, THEN conjunct1] by simp
  obtain w1 where f: "make_request ''GET'' (''actions/'' @ str_int 8) None None ?w
                         = (Inr (JObj [(''sources'', JArr [JInt 5])]), w1)"
    by (simp add: make_request_def example_world_def is_error_status_def Let_def)
  have s: "dict_get [(''sources'', JArr [JInt 5])] ''sources'' = Some (JArr [JInt 5])"
    by (simp add: dict_get_def)
  from inst [where w = ?w and target = 8 and source = 3 and w_fetched = w1 and fetched = "[JInt 5]"
             and target_action = "[(''sources'', JArr [JInt 5])]",
            THEN conjunct2, THEN conjunct2, THEN conjunct1] f s
  obtain out where o: "sent (snd (connect_actions 5 3 8 None None ?w)) = sent ?w @
           [build_request ?w ''GET'' (''actions/'' @ str_int 8) None None,
            build_request ?w ''PUT'' (''actions/'' @ str_int 8)
              (Some [(''source_ids'', JArr out)]) None]"
    by auto
  have "source_ids_sent (snd (connect_actions 5 3 8 None None ?w)) = Some (JArr [JInt 5, JInt 3])"
    by (simp add: connect_actions_def make_request_def example_world_def is_error_status_def
        dict_get_def exec_def source_ids_sent_def build_request_def Let_def)
  with o have "out = [JInt 5, JInt 3]"
    by (simp add: source_ids_sent_def build_request_def dict_get_def)
  with o have n3: "map json_data (sent (snd (connect_actions 5 3 8 None None ?w)))
     = [None, Some [(''source_ids'', JArr [JInt 5, JInt 3])]]"
    by (simp add: build_request_def example_world_def)
  from n1 n2 n3 show ?thesis by (intro conjI)
qed

section \<open>The reversal in draft creation (C9)\<close>

text \<open>If \<open>create_story_draft\<close> returns a draft, the three calls went through and the
  listing began with that draft.\<close>

lemma create_story_draft_success_only_if:
  assumes ok: "create_story_draft story_id w = (Inr latest_draft, w')"
  shows "\<exists>added w_added drafts w_listed rest fields draft_id removed.
           make_request ''PUT'' (''stories/'' @ str_int story_id) (Some add_tag_data) None w
             = (Inr added, w_added)
         \<and> list_story_drafts story_id w_added = (Inr (JObj drafts), w_listed)
         \<and> dict_get drafts ''drafts'' = Some (JArr (latest_draft # rest))
         \<and> latest_draft = JObj fields
         \<and> dict_get fields ''id'' = Some draft_id
         \<and> make_request ''PUT'' (''stories/'' @ str_int story_id)
              (Some [(''remove_tag_names'', JArr [JStr ''draft-creation'']),
                     (''draft_id'', draft_id)]) None w_listed = (Inr removed, w')
         \<and> sent w' = sent w @
              [build_request w ''PUT'' (''stories/'' @ str_int story_id) (Some add_tag_data) None,
               build_request w ''GET'' (''stories/'' @ str_int story_id @ ''/drafts'') None None,
               build_request w ''PUT'' (''stories/'' @ str_int story_id)
                 (Some [(''remove_tag_names'', JArr [JStr ''draft-creation'']),
                        (''draft_id'', draft_id)]) None]"
proof -
  obtain r1 w_added where s1:
    "make_request ''PUT'' (''stories/'' @ str_int story_id) (Some add_tag_data) None w = (r1, w_added)"
    by (cases "make_request ''PUT'' (''stories/'' @ str_int story_id) (Some add_tag_data) None w")
  with ok obtain added where r1: "r1 = Inr added"
    by (cases r1) (simp_all add: create_story_draft_def)
  obtain r2 w_listed where s2: "list_story_drafts story_id w_added = (r2, w_listed)"
    by (cases "list_story_drafts story_id w_added")
  with ok s1 r1 obtain listing where r2: "r2 = Inr listing"
    by (cases r2) (simp_all add: create_story_draft_def)
  from ok s1 r1 s2 r2 obtain listed where g: "get_default listing ''drafts'' JNull = Inr listed"
    by (cases "get_default listing ''drafts'' JNull") (simp_all add: create_story_draft_def)
  from ok s1 r1 s2 r2 g have tr: "truthy listed"
    by (cases "truthy listed") (simp_all add: create_story_draft_def)
  from ok s1 r1 s2 r2 g tr obtain first where i0: "index0 listed = Inr first"
    by (cases "index0 listed") (simp_all add: create_story_draft_def)
  from ok s1 r1 s2 r2 g tr i0 obtain draft_id where sb: "subscript first ''id'' = Inr draft_id"
    by (cases "subscript first ''id''") (simp_all add: create_story_draft_def)
  obtain r3 w3 where s3:
    "make_request ''PUT'' (''stories/'' @ str_int story_id) (Some (remove_tag_data draft_id))
       None w_listed = (r3, w3)"
    by (cases "make_request ''PUT'' (''stories/'' @ str_int story_id)
                 (Some (remove_tag_data draft_id)) None w_listed")
  with ok s1 r1 s2 r2 g tr i0 sb obtain removed where r3: "r3 = Inr removed"
    by (cases r3) (simp_all add: create_story_draft_def)
  from ok s1 r1 s2 r2 g tr i0 sb s3 r3 have res: "first = latest_draft" "w3 = w'"
    by (simp_all add: create_story_draft_def)
  from sb obtain fields where f: "first = JObj fields" "dict_get fields ''id'' = Some draft_id"
    using subscript_Inr by blast
  from i0 f obtain rest where l: "listed = JArr (first # rest)"
    using index0_Inr_truthy by blast
  from g obtain drafts where d: "listing = JObj drafts"
    "listed = (case dict_get drafts ''drafts'' of Some y \<Rightarrow> y | None \<Rightarrow> JNull)"
    using get_default_Inr by blast
  from d(2) l have dg: "dict_get drafts ''drafts'' = Some (JArr (first # rest))"
    by (cases "dict_get drafts ''drafts''") simp_all
  have b: "build_request w_listed = build_request w"
    using make_request_step(2) [OF s1] make_request_step(2) [OF s2 [unfolded list_story_drafts_def]]
    by simp
  have "sent w_added = sent w @
      [build_request w ''PUT'' (''stories/'' @ str_int story_id) (Some add_tag_data) None]"
    and b1: "build_request w_added = build_request w"
    using make_request_step [OF s1] by simp_all
  moreover have "sent w_listed = sent w_added @
      [build_request w_added ''GET'' (''stories/'' @ str_int story_id @ ''/drafts'') None None]"
    using make_request_step(1) [OF s2 [unfolded list_story_drafts_def]] .
  moreover have "sent w3 = sent w_listed @
      [build_request w_listed ''PUT'' (''stories/'' @ str_int story_id)
         (Some (remove_tag_data draft_id)) None]"
    using make_request_step(1) [OF s3] .
  ultimately have snt: "sent w3 = sent w @
      [build_request w ''PUT'' (''stories/'' @ str_int story_id) (Some add_tag_data) None,
       build_request w ''GET'' (''stories/'' @ str_int story_id @ ''/drafts'') None None,
       build_request w ''PUT'' (''stories/'' @ str_int story_id)
         (Some (remove_tag_data draft_id)) None]"
    using b by simp
  show ?thesis
    using s1 r1 s2 r2 d(1) dg f s3 r3 res snt
    by (simp add: remove_tag_data_def)
qed

text \<open>Conversely, when the three calls go through and the listing begins with a draft
  that has an \<^verbatim>\<open>id\<close>, that draft is returned.\<close>

lemma create_story_draft_success_if:
  assumes add: "make_request ''PUT'' (''stories/'' @ str_int story_id) (Some add_tag_data) None w
                  = (Inr added, w_added)"
    and lst: "list_story_drafts story_id w_added = (Inr (JObj drafts), w_listed)"
    and dg: "dict_get drafts ''drafts'' = Some (JArr (JObj draft_fields # rest))"
    and idv: "dict_get draft_fields ''id'' = Some draft_id"
    and rm: "make_request ''PUT'' (''stories/'' @ str_int story_id)
               (Some [(''remove_tag_names'', JArr [JStr ''draft-creation'']),
                      (''draft_id'', draft_id)]) None w_listed = (Inr removed, w_done)"
  shows "create_story_draft story_id w = (Inr (JObj draft_fields), w_done)"
    and "sent w_done = sent w @
           [build_request w ''PUT'' (''stories/'' @ str_int story_id) (Some add_tag_data) None,
            build_request w ''GET'' (''stories/'' @ str_int story_id @ ''/drafts'') None None,
            build_request w ''PUT'' (''stories/'' @ str_int story_id)
              (Some [(''remove_tag_names'', JArr [JStr ''draft-creation'']),
                     (''draft_id'', draft_id)]) None]"
proof -
  show "create_story_draft story_id w = (Inr (JObj draft_fields), w_done)"
    using add lst dg idv rm by (simp add: create_story_draft_def remove_tag_data_def)
  have "sent w_added = sent w @
      [build_request w ''PUT'' (''stories/'' @ str_int story_id) (Some add_tag_data) None]"
    and b1: "build_request w_added = build_request w"
    using make_request_step [OF add] by simp_all
  moreover have "sent w_listed = sent w_added @
      [build_request w_added ''GET'' (''stories/'' @ str_int story_id @ ''/drafts'') None None]"
    and "build_request w_listed = build_request w_added"
    using make_request_step [OF lst [unfolded list_story_drafts_def]] by simp_all
  moreover have "sent w_done = sent w_listed @
      [build_request w_listed ''PUT'' (''stories/'' @ str_int story_id)
         (Some [(''remove_tag_names'', JArr [JStr ''draft-creation'']),
                (''draft_id'', draft_id)]) None]"
    using make_request_step(1) [OF rm] .
  ultimately show "sent w_done = sent w @
           [build_request w ''PUT'' (''stories/'' @ str_int story_id) (Some add_tag_data) None,
            build_request w ''GET'' (''stories/'' @ str_int story_id @ ''/drafts'') None None,
            build_request w ''PUT'' (''stories/'' @ str_int story_id)
              (Some [(''remove_tag_names'', JArr [JStr ''draft-creation'']),
                     (''draft_id'', draft_id)]) None]"
    by simp
qed

text \<open>
  Claim C9: when the add-tag update succeeds, the listing reply holds under \<^verbatim>\<open>drafts\<close> a
  list whose first element is a draft with an \<^verbatim>\<open>id\<close>, and the removal succeeds, then
  \<open>create_story_draft\<close> returns that first draft and has sent exactly three requests,
  the last of which, the tag removal, carries the \<^verbatim>\<open>id\<close> of that draft as \<^verbatim>\<open>draft_id\<close>
  in its body. And only so: whenever \<open>create_story_draft\<close> returns a draft, the run was
  of this kind, the draft returned is the first one listed and the removal carried its
  \<^verbatim>\<open>id\<close>.
\<close>

theorem create_story_draft_success:
  "(make_request ''PUT'' (''stories/'' @ str_int story_id) (Some add_tag_data) None w
        = (Inr added, w_added)
      \<and> list_story_drafts story_id w_added = (Inr (JObj drafts), w_listed)
      \<and> dict_get drafts ''drafts'' = Some (JArr (JObj draft_fields # rest))
      \<and> dict_get draft_fields ''id'' = Some draft_id
      \<and> make_request ''PUT'' (''stories/'' @ str_int story_id)
           (Some [(''remove_tag_names'', JArr [JStr ''draft-creation'']),
                  (''draft_id'', draft_id)]) None w_listed = (Inr removed, w_done)
    \<longrightarrow> create_story_draft story_id w = (Inr (JObj draft_fields), w_done)
      \<and> sent w_done = sent w @
           [build_request w ''PUT'' (''stories/'' @ str_int story_id) (Some add_tag_data) None,
            build_request w ''GET'' (''stories/'' @ str_int story_id @ ''/drafts'') None None,
            build_request w ''PUT'' (''stories/'' @ str_int story_id)
              (Some [(''remove_tag_names'', JArr [JStr ''draft-creation'']),
                     (''draft_id'', draft_id)]) None])
   \<and> (create_story_draft story_id w = (Inr latest_draft, w')
    \<longrightarrow> (\<exists>added' w_added' drafts' w_listed' rest' draft_fields' draft_id' removed'.
           make_request ''PUT'' (''stories/'' @ str_int story_id) (Some add_tag_data) None w
             = (Inr added', w_added')
         \<and> list_story_drafts story_id w_added' = (Inr (JObj drafts'), w_listed')
         \<and> dict_get drafts' ''drafts'' = Some (JArr (latest_draft # rest'))
         \<and> latest_draft = JObj draft_fields'
         \<and> dict_get draft_fields' ''id'' = Some draft_id'
         \<and> make_request ''PUT'' (''stories/'' @ str_int story_id)
              (Some [(''remove_tag_names'', JArr [JStr ''draft-creation'']),
                     (''draft_id'', draft_id')]) None w_listed' = (Inr removed', w')
         \<and> sent w' = sent w @
              [build_request w ''PUT'' (''stories/'' @ str_int story_id) (Some add_tag_data) None,
               build_request w ''GET'' (''stories/'' @ str_int story_id @ ''/drafts'') None None,
               build_request w ''PUT'' (''stories/'' @ str_int story_id)
                 (Some [(''remove_tag_names'', JArr [JStr ''draft-creation'']),
                        (''draft_id'', draft_id')]) None]))"
proof (intro conjI impI)
  assume h: "make_request ''PUT'' (''stories/'' @ str_int story_id) (Some add_tag_data) None w
        = (Inr added, w_added)
      \<and> list_story_drafts story_id w_added = (Inr (JObj drafts), w_listed)
      \<and> dict_get drafts ''drafts'' = Some (JArr (JObj draft_fields # rest))
      \<and> dict_get draft_fields ''id'' = Some draft_id
      \<and> make_request ''PUT'' (''stories/'' @ str_int story_id)
           (Some [(''remove_tag_names'', JArr [JStr ''draft-creation'']),
                  (''draft_id'', draft_id)]) None w_listed = (Inr removed, w_done)"
  then have add: "make_request ''PUT'' (''stories/'' @ str_int story_id) (Some add_tag_data) None w
                  = (Inr added, w_added)"
    and lst: "list_story_drafts story_id w_added = (Inr (JObj drafts), w_listed)"
    and dg: "dict_get drafts ''drafts'' = Some (JArr (JObj draft_fields # rest))"
    and idv: "dict_get draft_fields ''id'' = Some draft_id"
    and rm: "make_request ''PUT'' (''stories/'' @ str_int story_id)
               (Some [(''remove_tag_names'', JArr [JStr ''draft-creation'']),
                      (''draft_id'', draft_id)]) None w_listed = (Inr removed, w_done)"
    by simp_all
  show "create_story_draft story_id w = (Inr (JObj draft_fields), w_done)"
    using add lst dg idv rm by (rule create_story_draft_success_if(1))
  show "sent w_done = sent w @
           [build_request w ''PUT'' (''stories/'' @ str_int story_id) (Some add_tag_data) None,
            build_request w ''GET'' (''stories/'' @ str_int story_id @ ''/drafts'') None None,
            build_request w ''PUT'' (''stories/'' @ str_int story_id)
              (Some [(''remove_tag_names'', JArr [JStr ''draft-creation'']),
                     (''draft_id'', draft_id)]) None]"
    using add lst dg idv rm by (rule create_story_draft_success_if(2))
next
  assume "create_story_draft story_id w = (Inr latest_draft, w')"
  then show "\<exists>added' w_added' drafts' w_listed' rest' draft_fields' draft_id' removed'.
           make_request ''PUT'' (''stories/'' @ str_int story_id) (Some add_tag_data) None w
             = (Inr added', w_added')
         \<and> list_story_drafts story_id w_added' = (Inr (JObj drafts'), w_listed')
         \<and> dict_get drafts' ''drafts'' = Some (JArr (latest_draft # rest'))
         \<and> latest_draft = JObj draft_fields'
         \<and> dict_get draft_fields' ''id'' = Some draft_id'
         \<and> make_request ''PUT'' (''stories/'' @ str_int story_id)
              (Some [(''remove_tag_names'', JArr [JStr ''draft-creation'']),
                     (''draft_id'', draft_id')]) None w_listed' = (Inr removed', w')
         \<and> sent w' = sent w @
              [build_request w ''PUT'' (''stories/'' @ str_int story_id) (Some add_tag_data) None,
               build_request w ''GET'' (''stories/'' @ str_int story_id @ ''/drafts'') None None,
               build_request w ''PUT'' (''stories/'' @ str_int story_id)
                 (Some [(''remove_tag_names'', JArr [JStr ''draft-creation'']),
                        (''draft_id'', draft_id')]) None]"
    by (rule create_story_draft_success_only_if)
qed

text \<open>A run on story 42 whose listing has two drafts. By the first half of the theorem
  the first draft is returned and the removal carries its id 9; by the second half the
  draft returned is the head of the listing.\<close>

theorem create_story_draft_success_witness:
  "\<exists>w'. create_story_draft 42
     (example_world [Response 200 (JsonBody (JObj [(''id'', JInt 42)])),
                     Response 200 (JsonBody (JObj [(''drafts'',
                        JArr [JObj [(''id'', JInt 9)], JObj [(''id'', JInt 8)]])])),
                     Response 200 (JsonBody (JObj [(''id'', JInt 42)]))])
       = (Inr (JObj [(''id'', JInt 9)]), w')
     \<and> map json_data (sent w') =
          [Some add_tag_data, None,
           Some [(''remove_tag_names'', JArr [JStr ''draft-creation'']), (''draft_id'', JInt 9)]]
     \<and> (\<exists>drafts rest. dict_get drafts ''drafts'' = Some (JArr (JObj [(''id'', JInt 9)] # rest)))"
proof -
  let ?start = "example_world [Response 200 (JsonBody (JObj [(''id'', JInt 42)])),
                     Response 200 (JsonBody (JObj [(''drafts'',
                        JArr [JObj [(''id'', JInt 9)], JObj [(''id'', JInt 8)]])])),
                     Response 200 (JsonBody (JObj [(''id'', JInt 42)]))]"
  let ?listing = "[(''drafts'', JArr [JObj [(''id'', JInt 9)], JObj [(''id'', JInt 8)]])]"
  obtain wa where a: "make_request ''PUT'' (''stories/'' @ str_int 42) (Some add_tag_data) None ?start
                       = (Inr (JObj [(''id'', JInt 42)]), wa)"
    and pa: "pending wa = [Response 200 (JsonBody (JObj ?listing)),
                           Response 200 (JsonBody (JObj [(''id'', JInt 42)]))]"
    by (simp add: make_request_def example_world_def is_error_status_def Let_def)
  obtain wb where l: "list_story_drafts 42 wa = (Inr (JObj ?listing), wb)"
    and pb: "pending wb = [Response 200 (JsonBody (JObj [(''id'', JInt 42)]))]"
    using pa by (simp add: list_story_drafts_def make_request_def is_error_status_def Let_def)
  have d: "dict_get ?listing ''drafts''
             = Some (JArr (JObj [(''id'', JInt 9)] # [JObj [(''id'', JInt 8)]]))"
    by (simp add: dict_get_def)
  have i: "dict_get [(''id'', JInt 9)] ''id'' = Some (JInt 9)"
    by (simp add: dict_get_def)
  obtain wc where r: "make_request ''PUT'' (''stories/'' @ str_int 42)
               (Some [(''remove_tag_names'', JArr [JStr ''draft-creation'']),
                      (''draft_id'', JInt 9)]) None wb = (Inr (JObj [(''id'', JInt 42)]), wc)"
    using pb by (simp add: make_request_def is_error_status_def Let_def)
  have hyp: "make_request ''PUT'' (''stories/'' @ str_int 42) (Some add_tag_data) None ?start
        = (Inr (JObj [(''id'', JInt 42)]), wa)
      \<and> list_story_drafts 42 wa = (Inr (JObj ?listing), wb)
      \<and> dict_get ?listing ''drafts''
           = Some (JArr (JObj [(''id'', JInt 9)] # [JObj [(''id'', JInt 8)]]))
      \<and> dict_get [(''id'', JInt 9)] ''id'' = Some (JInt 9)
      \<and> make_request ''PUT'' (''stories/'' @ str_int 42)
           (Some [(''remove_tag_names'', JArr [JStr ''draft-creation'']),
                  (''draft_id'', JInt 9)]) None wb = (Inr (JObj [(''id'', JInt 42)]), wc)"
    using a l d i r by (intro conjI)
  note fwd = create_story_draft_success [THEN conjunct1, THEN mp, OF hyp]
  from fwd have ok: "create_story_draft 42 ?start = (Inr (JObj [(''id'', JInt 9)]), wc)"
    by (rule conjunct1)
  from fwd have "sent wc = sent ?start @
           [build_request ?start ''PUT'' (''stories/'' @ str_int 42) (Some add_tag_data) None,
            build_request ?start ''GET'' (''stories/'' @ str_int 42 @ ''/drafts'') None None,
            build_request ?start ''PUT'' (''stories/'' @ str_int 42)
              (Some [(''remove_tag_names'', JArr [JStr ''draft-creation'']),
                     (''draft_id'', JInt 9)]) None]"
    by (rule conjunct2)
  then have m: "map json_data (sent wc) =
          [Some add_tag_data, None,
           Some [(''remove_tag_names'', JArr [JStr ''draft-creation'']), (''draft_id'', JInt 9)]]"
    by (simp add: build_request_def example_world_def)
  from create_story_draft_success [THEN conjunct2, THEN mp, OF ok]
  obtain drafts rest where
    h: "dict_get drafts ''drafts'' = Some (JArr (JObj [(''id'', JInt 9)] # rest))"
    by blast
  show ?thesis
  proof (rule exI [where x = wc], intro conjI)
    show "create_story_draft 42 ?start = (Inr (JObj [(''id'', JInt 9)]), wc)" by (rule ok)
    show "map json_data (sent wc) =
          [Some add_tag_data, None,
           Some [(''remove_tag_names'', JArr [JStr ''draft-creation'']), (''draft_id'', JInt 9)]]"
      by (rule m)
    show "\<exists>drafts rest. dict_get drafts ''drafts'' = Some (JArr (JObj [(''id'', JInt 9)] # rest))"
      using h by (intro exI)
  qed
qed

section \<open>Identifier zero in note creation (C10)\<close>

text \<open>
  Claim C10: \<open>create_note\<close> given the identifier 0 for the story, for the group or for
  both fails with the same \<^verbatim>\<open>ValueError\<close> as a call that gives no identifier, and issues
  no request: the check is on the truth value of the identifiers.
\<close>

theorem create_note_zero_id_rejected:
  "create_note content (Some 0) None position draft_id w =
     (Inl (ValueError ''Either story_id or group_id must be provided''), w)
   \<and> create_note content None (Some 0) position draft_id w =
     (Inl (ValueError ''Either story_id or group_id must be provided''), w)
   \<and> create_note content (Some 0) (Some 0) position draft_id w =
     (Inl (ValueError ''Either story_id or group_id must be provided''), w)"
  by (simp add: create_note_def)

end
